theory Spec2Isabelle
  imports Complex_Main
begin

section \<open>Costs, turns and sessions\<close>

text \<open>
  A Cost object as every stage builds it: \<^verbatim>\<open>{inputTokens, outputTokens, usd}\<close>.
  Token counts are JavaScript numbers holding integers; \<open>usd\<close> is a JavaScript number,
  modelled as a rational.
\<close>

record cost =
  inputTokens :: int
  outputTokens :: int
  usd :: rat

definition zeroCost :: cost where
  "zeroCost = \<lparr>inputTokens = 0, outputTokens = 0, usd = 0\<rparr>"

text \<open>
  The aggregate cost stored in a session. \<^verbatim>\<open>createNewSession\<close> stores the first turn's
  Cost object, \<^verbatim>\<open>appendTurnToSession\<close> stores an object with the single property
  \<^verbatim>\<open>usd\<close>; a property that the object does not have is \<open>None\<close>.
\<close>

record sessionCost =
  sumInputTokens :: "int option"
  sumOutputTokens :: "int option"
  sumUsd :: "rat option"

definition asSessionCost :: "cost \<Rightarrow> sessionCost" where
  "asSessionCost c =
     \<lparr>sumInputTokens = Some (inputTokens c), sumOutputTokens = Some (outputTokens c),
      sumUsd = Some (usd c)\<rparr>"

record instruction =
  i_id :: int
  i_perspective :: string
  i_instruction :: string
  i_methodology :: string

text \<open>One fan-out participant's outcome (\<^verbatim>\<open>runOneAgent\<close>'s return value).\<close>

record perspectiveResult =
  r_id :: int
  r_perspective :: string
  r_instruction :: string
  findings :: string
  r_model :: string
  r_cost :: cost
  r_turns :: int

record turnExpansion =
  e_instructions :: "instruction list"
  e_cost :: cost

record turnPerspective =
  p_id :: int
  p_perspective :: string
  p_findings :: string
  p_cost :: cost

record turnSynthesis =
  s_text :: string
  s_cost :: cost

text \<open>
  A persisted turn. A single-call turn carries \<open>turnType\<close>, \<open>promptName\<close> and
  \<open>response\<close>; a chorus turn carries \<open>expansion\<close>, \<open>perspectives\<close> and, when a
  synthesis was made, \<open>synthesis\<close>. A property the object does not have is \<open>None\<close>.
\<close>

record turn =
  turnNumber :: int
  turnType :: "string option"
  promptName :: "string option"
  prompt :: string
  response :: "string option"
  expansion :: "turnExpansion option"
  perspectives :: "turnPerspective list option"
  synthesis :: "turnSynthesis option"
  totalCost :: "cost option"
  elapsedSeconds :: rat
  timestamp :: string

text \<open>
  The parsed command line of askMilo, \<^verbatim>\<open>{switches, values, fileList}\<close>; the submission
  access point receives the same shape as its request body. Of the switches and values
  only those are kept that the modelled code reads. A value is an array in the source and
  is read through its first element: the field holds that element, \<open>None\<close> when the key
  is absent. The switch \<^verbatim>\<open>restoreSwitches\<close>, which askMilo reads only when it resumes a
  session, is not among them: the model covers the command lines without it.
\<close>

record switches =
  sw_help :: bool
  sw_listSessions :: bool
  sw_noSave :: bool
  sw_dryRun :: bool
  sw_mockApi :: bool
  sw_summarize :: bool
  sw_serialFanOut :: bool
  sw_interrogate :: bool
  sw_verbose :: bool
  sw_json :: bool

record cliValues =
  v_sessionName :: "string option"
  v_resumeSession :: "string option"
  v_viewSession :: "string option"
  v_deleteSession :: "string option"
  v_renameSession :: "string option"
  v_firstPrompt :: "string option"
  v_perspectives :: "string option"
  v_model :: "string option"

record cliParameters =
  cl_switches :: switches
  cl_values :: cliValues
  cl_fileList :: "string list"

text \<open>The part of the command line that a session keeps: \<^verbatim>\<open>{switches, values}\<close>.\<close>

record savedCommandLine =
  scl_switches :: switches
  scl_values :: cliValues

record promptConfig =
  pc_firstPromptName :: string
  pc_perspectives :: int
  pc_summarize :: bool

record savedConfig =
  sc_expandModel :: string
  sc_agentModel :: string
  sc_driver :: string
  sc_perspectives :: int

text \<open>
  The object stored in a session file. Two writers produce it: the session manager
  (\<^verbatim>\<open>createNewSession\<close>, \<^verbatim>\<open>appendTurnToSession\<close>) and the close handler of the
  submission access point, which writes \<^verbatim>\<open>{sessionName, status, error, failedAt, turns}\<close>.
\<close>

record session =
  sessionName :: string
  status :: "string option"
  error :: "string option"
  failedAt :: "string option"
  createdAt :: "string option"
  updatedAt :: "string option"
  sessPromptConfig :: "promptConfig option"
  sessCommandLineParameters :: "savedCommandLine option"
  sessConfig :: "savedConfig option"
  turns :: "turn list option"
  sessionTotalCost :: "sessionCost option"

text \<open>
  The sessions directory maps a session name to the content of \<^verbatim>\<open>NAME.json\<close>. The
  content is modelled by what \<^verbatim>\<open>JSON.parse\<close> makes of it: it throws, or it yields the
  stored object. A content that parses to something else than an object with such fields
  (no writer of the system produces one) is outside the model.
\<close>

datatype sessionFile = Unparseable | Parsed session

type_synonym disk = "string \<Rightarrow> sessionFile option"

section \<open>JavaScript strings and numbers\<close>

text \<open>
  A string is a list of characters, each standing for a code unit below 256.

  \<^verbatim>\<open>x || []\<close> on a property holding an array.
\<close>

definition orEmpty :: "'a list option \<Rightarrow> 'a list" where
  "orEmpty xs = (case xs of None \<Rightarrow> [] | Some ys \<Rightarrow> ys)"

text \<open>
  \<^verbatim>\<open>x || 'text'\<close> on a property holding a string, and the test \<^verbatim>\<open>if (x)\<close> on it: the
  string when it is there and not empty.
\<close>

definition orDefault :: "string option \<Rightarrow> string \<Rightarrow> string" where
  "orDefault x dflt = (case x of None \<Rightarrow> dflt | Some s \<Rightarrow> if s = [] then dflt else s)"

definition whenGiven :: "string option \<Rightarrow> string option" where
  "whenGiven x = (case x of None \<Rightarrow> None | Some s \<Rightarrow> if s = [] then None else Some s)"

text \<open>\<^verbatim>\<open>xs[i]\<close>: \<^verbatim>\<open>undefined\<close> outside the array.\<close>

definition jsIndex :: "'a list \<Rightarrow> int \<Rightarrow> 'a option" where
  "jsIndex xs i = (if 0 \<le> i \<and> i < int (length xs) then Some (xs ! nat i) else None)"

text \<open>\<^verbatim>\<open>xs.join(sep)\<close>.\<close>

fun join :: "string \<Rightarrow> string list \<Rightarrow> string" where
  "join sep [] = []"
| "join sep [x] = x"
| "join sep (x # y # ys) = x @ sep @ join sep (y # ys)"

text \<open>
  \<^verbatim>\<open>s.includes(sub)\<close> and \<^verbatim>\<open>s.trim()\<close>. The white space and the line terminators of
  ECMAScript below 256 are the code units 9 to 13, 32 and 160.
\<close>

fun jsIncludes :: "string \<Rightarrow> string \<Rightarrow> bool" where
  "jsIncludes [] sub = (sub = [])"
| "jsIncludes (c # cs) sub = (take (length sub) (c # cs) = sub \<or> jsIncludes cs sub)"

definition isSpace :: "char \<Rightarrow> bool" where
  "isSpace c \<longleftrightarrow>
     c \<in> {CHR '' '', CHR 0x09, CHR 0x0A, CHR 0x0B, CHR 0x0C, CHR 0x0D, CHR 0xA0}"

definition trim :: "string \<Rightarrow> string" where
  "trim s = rev (dropWhile isSpace (rev (dropWhile isSpace s)))"

text \<open>
  \<^verbatim>\<open>s.toLowerCase()\<close>: below 256 the letters with a lower case are A to Z and the code
  units 192 to 222 without 215.
\<close>

definition toLowerChar :: "char \<Rightarrow> char" where
  "toLowerChar c =
     (let n = (of_char c :: nat)
      in if (65 \<le> n \<and> n \<le> 90) \<or> (192 \<le> n \<and> n \<le> 222 \<and> n \<noteq> 215) then char_of (n + 32)
         else c)"

definition toLowerCase :: "string \<Rightarrow> string" where
  "toLowerCase s = map toLowerChar s"

text \<open>\<^verbatim>\<open>s.split(sep)\<close> for a separator of one character.\<close>

fun jsSplit :: "char \<Rightarrow> string \<Rightarrow> string list" where
  "jsSplit sep [] = [[]]"
| "jsSplit sep (c # cs) =
     (if c = sep then [] # jsSplit sep cs
      else case jsSplit sep cs of
             [] \<Rightarrow> [[c]]
           | w # ws \<Rightarrow> (c # w) # ws)"

text \<open>
  \<^verbatim>\<open>s.replace(/pat/g, rep)\<close> for a pattern that matches the text \<open>pat\<close>, not empty, and
  nothing else, and a replacement without \<^verbatim>\<open>$\<close>: the occurrences are taken from the
  left and do not overlap.
\<close>

function replaceAll :: "string \<Rightarrow> string \<Rightarrow> string \<Rightarrow> string" where
  "replaceAll pat rep s =
     (if s = [] \<or> pat = [] then s
      else if take (length pat) s = pat
      then rep @ replaceAll pat rep (drop (length pat) s)
      else hd s # replaceAll pat rep (tl s))"
  by pat_completeness auto

termination
  by (relation "measure (\<lambda>(pat, rep, s). length s)") auto

declare replaceAll.simps [simp del]

text \<open>The decimal notation of a number that holds an integer (of at most 21 digits).\<close>

fun showNat :: "nat \<Rightarrow> string" where
  "showNat n = (if n < 10 then [char_of (48 + n)]
                else showNat (n div 10) @ [char_of (48 + n mod 10)])"

definition showInt :: "int \<Rightarrow> string" where
  "showInt i = (if i < 0 then ''-'' @ showNat (nat (- i)) else showNat (nat i))"

text \<open>
  A JavaScript number that holds an integer is a double: an integer of more than 53 bits
  is rounded to 53 significant bits, to the nearest, a tie to the even one.
  \<open>excessBits\<close> is the number of bits beyond 53. The largest double is below 2^1024; from
  there on JavaScript has \<^verbatim>\<open>Infinity\<close>, where the model goes on with 53 significant bits.
\<close>

function excessBits :: "int \<Rightarrow> nat" where
  "excessBits m = (if m < 2 ^ 53 then 0 else Suc (excessBits (m div 2)))"
  by pat_completeness auto

termination
  by (relation "measure nat") auto

declare excessBits.simps [simp del]

definition roundMagnitude :: "int \<Rightarrow> int" where
  "roundMagnitude m =
     (let e = excessBits m; q = m div 2 ^ e; r = m mod 2 ^ e
      in if e = 0 then m
         else (if 2 ^ (e - 1) < r \<or> (r = 2 ^ (e - 1) \<and> q mod 2 = 1) then q + 1 else q) * 2 ^ e)"

definition roundToDouble :: "int \<Rightarrow> int" where
  "roundToDouble i = (if i < 0 then - roundMagnitude (- i) else roundMagnitude i)"

text \<open>
  \<^verbatim>\<open>parseInt(s, radix)\<close>, the radix 0 when the call gives none: leading white space is
  skipped, a sign is read, a prefix \<^verbatim>\<open>0x\<close> selects radix 16 when the radix is 0 or 16,
  and the longest run of digits of the radix is the number; \<open>None\<close> is \<^verbatim>\<open>NaN\<close>, for no
  digit and for a radix that is neither 0 nor from 2 to 36.
\<close>

definition digitValue :: "char \<Rightarrow> nat option" where
  "digitValue c =
     (let n = (of_char c :: nat)
      in if 48 \<le> n \<and> n \<le> 57 then Some (n - 48)
         else if 97 \<le> n \<and> n \<le> 122 then Some (n - 87)
         else if 65 \<le> n \<and> n \<le> 90 then Some (n - 55)
         else None)"

fun radixDigits :: "nat \<Rightarrow> string \<Rightarrow> nat list" where
  "radixDigits R [] = []"
| "radixDigits R (c # cs) =
     (case digitValue c of
        None \<Rightarrow> []
      | Some v \<Rightarrow> if v < R then v # radixDigits R cs else [])"

definition parseIntRadix :: "string \<Rightarrow> nat \<Rightarrow> int option" where
  "parseIntRadix inputString radix =
     (let S = dropWhile isSpace inputString;
          negative = (take 1 S = ''-'');
          S1 = (if take 1 S = ''+'' \<or> take 1 S = ''-'' then drop 1 S else S);
          hex = ((radix = 0 \<or> radix = 16) \<and> (take 2 S1 = ''0x'' \<or> take 2 S1 = ''0X''));
          R = (if hex then 16 else if radix = 0 then 10 else radix);
          Z = radixDigits R (if hex then drop 2 S1 else S1)
      in if radix \<noteq> 0 \<and> (radix < 2 \<or> 36 < radix) then None
         else if Z = [] then None
         else Some (roundToDouble
                      ((if negative then - 1 else 1) * foldl (\<lambda>a v. a * int R + int v) 0 Z)))"

definition parseInt :: "string \<Rightarrow> int option" where
  "parseInt inputString = parseIntRadix inputString 0"

section \<open>Session manager\<close>

datatype loadError = SessionNotFound string | SyntaxError

definition loadSession :: "string \<Rightarrow> disk \<Rightarrow> loadError + session" where
  "loadSession name d =
     (case d name of
        None \<Rightarrow> Inl (SessionNotFound name)
      | Some Unparseable \<Rightarrow> Inl SyntaxError
      | Some (Parsed s) \<Rightarrow> Inr s)"

definition saveSession :: "string \<Rightarrow> session \<Rightarrow> disk \<Rightarrow> disk" where
  "saveSession now s d = d(sessionName s \<mapsto> Parsed (s\<lparr>updatedAt := Some now\<rparr>))"

definition deleteSession :: "string \<Rightarrow> disk \<Rightarrow> loadError + disk" where
  "deleteSession name d =
     (if d name = None then Inl (SessionNotFound name) else Inr (d(name := None)))"

text \<open>
  \<^verbatim>\<open>renameSession\<close> writes the renamed session under the new name and then removes the
  old file.
\<close>

datatype renameError = OldSessionNotFound string | NewSessionExists string | OldSyntaxError

definition renameSession :: "string \<Rightarrow> string \<Rightarrow> string \<Rightarrow> disk \<Rightarrow> renameError + disk" where
  "renameSession now oldName newName d =
     (if d oldName = None then Inl (OldSessionNotFound oldName)
      else if d newName \<noteq> None then Inl (NewSessionExists newName)
      else case d oldName of
             Some (Parsed data) \<Rightarrow>
               Inr ((d(newName \<mapsto> Parsed (data\<lparr>sessionName := newName, updatedAt := Some now\<rparr>)))
                      (oldName := None))
           | other \<Rightarrow> Inl OldSyntaxError)"

text \<open>\<^verbatim>\<open>results.reduce((s, r) => s + r.cost.usd, 0)\<close> and its two siblings.\<close>

definition resultsUsd :: "perspectiveResult list \<Rightarrow> rat" where
  "resultsUsd rs = foldl (\<lambda>s r. s + usd (r_cost r)) 0 rs"

definition resultsInputTokens :: "perspectiveResult list \<Rightarrow> int" where
  "resultsInputTokens rs = foldl (\<lambda>s r. s + inputTokens (r_cost r)) 0 rs"

definition resultsOutputTokens :: "perspectiveResult list \<Rightarrow> int" where
  "resultsOutputTokens rs = foldl (\<lambda>s r. s + outputTokens (r_cost r)) 0 rs"

definition costOrZero :: "cost option \<Rightarrow> cost" where
  "costOrZero c = (case c of None \<Rightarrow> zeroCost | Some x \<Rightarrow> x)"

definition buildTurnFromResults ::
  "string \<Rightarrow> string \<Rightarrow> instruction list option \<Rightarrow> perspectiveResult list option \<Rightarrow>
   cost option \<Rightarrow> string option \<Rightarrow> cost option \<Rightarrow> rat \<Rightarrow> int \<Rightarrow> turn" where
  "buildTurnFromResults now originalPrompt instructions results expandCost synth synthesisCost
     elapsed tn =
     \<lparr>turnNumber = tn,
      turnType = None,
      promptName = None,
      prompt = originalPrompt,
      response = None,
      expansion = Some \<lparr>e_instructions = orEmpty instructions, e_cost = costOrZero expandCost\<rparr>,
      perspectives = Some (map (\<lambda>r. \<lparr>p_id = r_id r, p_perspective = r_perspective r,
                                     p_findings = findings r, p_cost = r_cost r\<rparr>)
                             (orEmpty results)),
      synthesis = (case synth of
                     None \<Rightarrow> None
                   | Some t \<Rightarrow> if t = [] then None
                              else Some \<lparr>s_text = t, s_cost = costOrZero synthesisCost\<rparr>),
      totalCost = Some
        \<lparr>inputTokens = inputTokens (costOrZero expandCost) + resultsInputTokens (orEmpty results)
                        + inputTokens (costOrZero synthesisCost),
         outputTokens = outputTokens (costOrZero expandCost) + resultsOutputTokens (orEmpty results)
                        + outputTokens (costOrZero synthesisCost),
         usd = usd (costOrZero expandCost) + resultsUsd (orEmpty results)
               + usd (costOrZero synthesisCost)\<rparr>,
      elapsedSeconds = elapsed,
      timestamp = now\<rparr>"

definition createNewSession ::
  "string \<Rightarrow> string \<Rightarrow> cliParameters \<Rightarrow> promptConfig \<Rightarrow> savedConfig \<Rightarrow> turn \<Rightarrow> session"
  where
  "createNewSession now name cl pc sc t =
     \<lparr>sessionName = name,
      status = None,
      error = None,
      failedAt = None,
      createdAt = Some now,
      updatedAt = Some now,
      sessPromptConfig = Some pc,
      sessCommandLineParameters =
        Some \<lparr>scl_switches = cl_switches cl, scl_values = cl_values cl\<rparr>,
      sessConfig = Some sc,
      turns = Some [t],
      sessionTotalCost = map_option asSessionCost (totalCost t)\<rparr>"

text \<open>
  \<^verbatim>\<open>session.turns.push(turn)\<close> throws on a session without \<open>turns\<close>. The new aggregate
  is the object literal \<^verbatim>\<open>{ usd: session.turns.reduce(...) }\<close>.
\<close>

definition turnsUsd :: "turn list \<Rightarrow> rat" where
  "turnsUsd ts = foldl (\<lambda>s t. s + (case totalCost t of None \<Rightarrow> 0 | Some c \<Rightarrow> usd c)) 0 ts"

datatype typeError = TypeError

definition appendTurnToSession :: "session \<Rightarrow> turn \<Rightarrow> typeError + session" where
  "appendTurnToSession s t =
     (case turns s of
        None \<Rightarrow> Inl TypeError
      | Some ts \<Rightarrow>
          Inr (s\<lparr>turns := Some (ts @ [t]),
                 sessionTotalCost :=
                   Some \<lparr>sumInputTokens = None, sumOutputTokens = None,
                         sumUsd = Some (turnsUsd (ts @ [t]))\<rparr>\<rparr>))"

section \<open>Status access point\<close>

text \<open>
  The file-system calls, with the directory passed in and handed back, so that a function
  built from them shows what it writes. \<^verbatim>\<open>readFileSync\<close> throws on an absent file.
\<close>

definition fs_existsSync :: "string \<Rightarrow> disk \<Rightarrow> bool \<times> disk" where
  "fs_existsSync name d = (d name \<noteq> None, d)"

definition fs_readFileSync :: "string \<Rightarrow> disk \<Rightarrow> sessionFile option \<times> disk" where
  "fs_readFileSync name d = (d name, d)"

definition fs_writeFileSync :: "string \<Rightarrow> sessionFile \<Rightarrow> disk \<Rightarrow> disk" where
  "fs_writeFileSync name f d = d(name \<mapsto> f)"

datatype statusResult =
    StatusRunning string int int
  | StatusError string string
  | StatusComplete string int "turn option"

text \<open>\<^verbatim>\<open>sessionData.error || 'unknown error'\<close>.\<close>

definition errorOrUnknown :: "string option \<Rightarrow> string" where
  "errorOrUnknown e = (case e of None \<Rightarrow> ''unknown error''
                       | Some m \<Rightarrow> if m = [] then ''unknown error'' else m)"

text \<open>
  Stage 2 of the status access point. The arguments are the session name and the turn
  number that stage 1 let through.
\<close>

definition checkSessionFile :: "string \<Rightarrow> int \<Rightarrow> disk \<Rightarrow> statusResult \<times> disk" where
  "checkSessionFile name tn d0 =
     (let (ex, d1) = fs_existsSync name d0 in
      if \<not> ex then (StatusRunning name tn 0, d1)
      else
        let (content, d2) = fs_readFileSync name d1 in
        (case content of
           None \<Rightarrow> (StatusError name ''corrupt session file'', d2)
         | Some Unparseable \<Rightarrow> (StatusError name ''corrupt session file'', d2)
         | Some (Parsed sessionData) \<Rightarrow>
             if status sessionData = Some ''error''
             then (StatusError name (errorOrUnknown (error sessionData)), d2)
             else
               let ts = orEmpty (turns sessionData) in
               if int (length ts) \<ge> tn
               then (StatusComplete name tn (jsIndex ts (tn - 1)), d2)
               else (StatusRunning name tn (int (length ts)), d2)))"

text \<open>
  Stage 1. The query holds the two parameters with their defaults \<^verbatim>\<open>''\<close> and
  \<^verbatim>\<open>'0'\<close>.
\<close>

record statusQuery =
  q_sessionName :: string
  q_turnNumber :: string

definition validateStatusQuery :: "statusQuery \<Rightarrow> string + (string \<times> int)" where
  "validateStatusQuery q =
     (if q_sessionName q = [] then Inl ''Missing required parameter: sessionName''
      else case parseInt (q_turnNumber q) of
        None \<Rightarrow> Inl ''Missing or invalid parameter: turnNumber (must be >= 1)''
      | Some n \<Rightarrow> if n = 0 \<or> n < 1
                  then Inl ''Missing or invalid parameter: turnNumber (must be >= 1)''
                  else Inr (q_sessionName q, n))"

definition statusServiceFunction :: "statusQuery \<Rightarrow> disk \<Rightarrow> (string + statusResult) \<times> disk" where
  "statusServiceFunction q d =
     (case validateStatusQuery q of
        Inl err \<Rightarrow> (Inl err, d)
      | Inr (name, tn) \<Rightarrow> (let (r, d') = checkSessionFile name tn d in (Inr r, d')))"

section \<open>Submission access point\<close>

text \<open>
  The acknowledgement (without \<^verbatim>\<open>checkUrl\<close>, which repeats the session name and the
  turn number in a URL).
\<close>

record submitResult =
  a_status :: string
  a_sessionName :: string
  a_turnNumber :: int
  a_estimatedSeconds :: int
  a_pollAdvice :: string

text \<open>
  A spawned askMilo process: the session name its handlers close over and the input
  written to its standard input.
\<close>

record child =
  pid :: nat
  ch_sessionName :: string
  ch_input :: cliParameters

text \<open>
  What a submission can change: the module-level set \<^verbatim>\<open>inFlightSessions\<close>, the
  processes spawned and not yet ended, and the sessions directory.
\<close>

record gateway =
  inFlightSessions :: "string set"
  children :: "child list"
  nextPid :: nat
  g_disk :: disk

text \<open>
  Stage 1. \<open>generated\<close> is the name that \<^verbatim>\<open>generateSessionName\<close> returns when it is
  called (it draws random words).
\<close>

definition determineSessionAndTurn ::
  "string \<Rightarrow> cliParameters \<Rightarrow> disk \<Rightarrow> string + (string \<times> int)" where
  "determineSessionAndTurn generated requestBody d =
     (if cl_fileList requestBody = []
      then Inl ''Missing prompt: fileList must contain at least one element''
      else
        case v_sessionName (cl_values requestBody) of
          None \<Rightarrow> Inr (generated, 1)
        | Some provided \<Rightarrow>
            if provided = [] then Inr (generated, 1)
            else if fst (fs_existsSync provided d)
            then (case loadSession provided d of
                    Inr existing \<Rightarrow> Inr (provided, int (length (orEmpty (turns existing))) + 1)
                  | Inl loadErr \<Rightarrow> Inr (provided, 1))
            else Inr (provided, 1))"

text \<open>Stage 2: the in-flight check, and the registration when it passes.\<close>

definition inFlightMessage :: "string \<Rightarrow> string" where
  "inFlightMessage name =
     ''Session '' @ [CHR 0x22] @ name @ [CHR 0x22] @ '' already has a turn in progress''"

definition checkInFlight :: "string \<Rightarrow> gateway \<Rightarrow> string + gateway" where
  "checkInFlight name g =
     (if name \<in> inFlightSessions g then Inl (inFlightMessage name)
      else Inr (g\<lparr>inFlightSessions := insert name (inFlightSessions g)\<rparr>))"

text \<open>Stage 3: build the input, spawn the process, acknowledge.\<close>

definition askMiloInput :: "cliParameters \<Rightarrow> string \<Rightarrow> cliParameters" where
  "askMiloInput requestBody name =
     \<lparr>cl_switches = (cl_switches requestBody)\<lparr>sw_json := True\<rparr>,
      cl_values = (cl_values requestBody)\<lparr>v_sessionName := Some name\<rparr>,
      cl_fileList = cl_fileList requestBody\<rparr>"

definition spawnAskMilo ::
  "cliParameters \<Rightarrow> string \<Rightarrow> int \<Rightarrow> gateway \<Rightarrow> submitResult \<times> gateway" where
  "spawnAskMilo requestBody name tn g =
     (let c = \<lparr>pid = nextPid g, ch_sessionName = name,
                ch_input = askMiloInput requestBody name\<rparr>;
          n = (case parseInt (case v_perspectives (cl_values requestBody) of
                                None \<Rightarrow> ''3'' | Some v \<Rightarrow> v) of
                 None \<Rightarrow> 3
               | Some k \<Rightarrow> if k = 0 then 3 else k)
      in (\<lparr>a_status = ''accepted'', a_sessionName = name, a_turnNumber = tn,
            a_estimatedSeconds = roundToDouble (n * 120),
            a_pollAdvice = ''Wait 5 minutes before first check, then every 60 seconds.''\<rparr>,
          g\<lparr>children := children g @ [c], nextPid := Suc (nextPid g)\<rparr>))"

definition submitServiceFunction ::
  "string \<Rightarrow> cliParameters \<Rightarrow> gateway \<Rightarrow> (string + submitResult) \<times> gateway" where
  "submitServiceFunction generated requestBody g =
     (case determineSessionAndTurn generated requestBody (g_disk g) of
        Inl err \<Rightarrow> (Inl err, g)
      | Inr (name, tn) \<Rightarrow>
          (case checkInFlight name g of
             Inl err \<Rightarrow> (Inl err, g)
           | Inr g1 \<Rightarrow>
               (let (ack, g2) = spawnAskMilo requestBody name tn g1
                in (Inr ack, g2))))"

text \<open>The exit code in a template string; \<^verbatim>\<open>null\<close> when a signal ended the process.\<close>

definition showCode :: "int option \<Rightarrow> string" where
  "showCode code = (case code of None \<Rightarrow> ''null''
                    | Some c \<Rightarrow> if c < 0 then ''-'' @ showNat (nat (- c)) else showNat (nat c))"

text \<open>The handler of \<^verbatim>\<open>close\<close>, for the process of session \<open>name\<close>.\<close>

definition errorSession :: "string \<Rightarrow> string \<Rightarrow> int option \<Rightarrow> string \<Rightarrow> session" where
  "errorSession now name code stderrBuffer =
     \<lparr>sessionName = name,
      status = Some ''error'',
      error = Some (''askMilo exited with code '' @ showCode code @ '': ''
                    @ take 2000 stderrBuffer),
      failedAt = Some now,
      createdAt = None,
      updatedAt = None,
      sessPromptConfig = None,
      sessCommandLineParameters = None,
      sessConfig = None,
      turns = Some [],
      sessionTotalCost = None\<rparr>"

definition onClose :: "string \<Rightarrow> string \<Rightarrow> int option \<Rightarrow> string \<Rightarrow> gateway \<Rightarrow> gateway" where
  "onClose now name code stderrBuffer g =
     (let g1 = g\<lparr>inFlightSessions := inFlightSessions g - {name}\<rparr>
      in if code \<noteq> Some 0
         then g1\<lparr>g_disk := fs_writeFileSync name (Parsed (errorSession now name code stderrBuffer))
                              (g_disk g1)\<rparr>
         else g1)"

text \<open>The handler of \<^verbatim>\<open>error\<close> (the process could not be spawned).\<close>

definition onError :: "string \<Rightarrow> gateway \<Rightarrow> gateway" where
  "onError name g = g\<lparr>inFlightSessions := inFlightSessions g - {name}\<rparr>"

section \<open>The background run\<close>

text \<open>
  What askMilo reads of its .ini file, as the configuration reader hands it over (with the
  values of the command line put in for the tags of the file): its own section, the
  section \<^verbatim>\<open>[prompts]\<close> and the model map. A key that the file does not have is \<open>None\<close>.
\<close>

record localConfig =
  lc_anthropicApiKey :: "string option"
  lc_perspectives :: "string option"
  lc_agentModel :: "string option"
  lc_expandModel :: "string option"
  lc_driver :: "string option"
  lc_tools :: "string option"
  lc_chorusExpanderPromptName :: "string option"
  lc_singleCallPromptName :: "string option"
  lc_agentPromptName :: "string option"
  lc_summarizerPromptName :: "string option"

record iniFile =
  ini_askMilo :: localConfig
  ini_prompts :: "string \<rightharpoonup> string"
  ini_modelMap :: "string \<rightharpoonup> string"

text \<open>The configuration \<^verbatim>\<open>evalConfig\<close>, as far as the modelled code reads it.\<close>

record config =
  c_prompt :: string
  c_perspectives :: int
  c_agentModel :: string
  c_expandModel :: string
  c_driver :: string
  c_tools :: "string list"
  c_firstPromptName :: string
  c_firstPromptText :: string
  c_agentPromptText :: string
  c_summarizerPromptText :: string
  c_resumeAddendumText :: string
  c_jsonEnforcementText :: string
  c_verbose :: bool
  c_json :: bool
  c_dryRun :: bool
  c_summarize :: bool
  c_interrogate :: bool
  c_noSave :: bool
  c_mockApi :: bool
  c_serialFanOut :: bool

definition resolveModel :: "iniFile \<Rightarrow> string \<Rightarrow> string" where
  "resolveModel ini shorthand = orDefault (ini_modelMap ini shorthand) shorthand"

text \<open>
  \<^verbatim>\<open>resolvePrompt\<close> throws for a name without a text in \<^verbatim>\<open>[prompts]\<close>. In the text it
  puts a line feed for every backslash followed by \<^verbatim>\<open>n\<close>, and the value of each
  template variable for its name in braces.
\<close>

datatype configError = PromptNotFound string

definition resolvePrompt ::
  "iniFile \<Rightarrow> string \<Rightarrow> (string \<times> string) list \<Rightarrow> configError + string" where
  "resolvePrompt ini name templateVars =
     (case whenGiven (ini_prompts ini name) of
        None \<Rightarrow> Inl (PromptNotFound name)
      | Some text \<Rightarrow>
          Inr (foldl (\<lambda>resolved (key, v). replaceAll (''{'' @ key @ ''}'') v resolved)
                 (replaceAll [CHR 0x5C, CHR ''n''] [CHR 0x0A] text) templateVars))"

text \<open>
  \<^verbatim>\<open>buildConfig\<close>. The five prompt texts are resolved in the order of the object
  literal, so that the first name without a text is the one of the exception.
\<close>

definition buildConfig :: "iniFile \<Rightarrow> cliParameters \<Rightarrow> configError + config" where
  "buildConfig ini cl =
     (let cfg = ini_askMilo ini;
          sw = cl_switches cl;
          userPrompt = join '' '' (cl_fileList cl);
          perspectives =
            (case parseIntRadix (case lc_perspectives cfg of None \<Rightarrow> ''undefined'' | Some v \<Rightarrow> v) 10
             of None \<Rightarrow> 0 | Some n \<Rightarrow> n);
          interrogate = sw_interrogate sw;
          templateVars = [(''N'', showInt perspectives)];
          firstPromptName =
            (case whenGiven (v_firstPrompt (cl_values cl)) of
               Some n \<Rightarrow> n
             | None \<Rightarrow>
                 if interrogate then ''interrogator''
                 else if perspectives > 0
                 then orDefault (lc_chorusExpanderPromptName cfg) ''chorusExpander''
                 else orDefault (lc_singleCallPromptName cfg) ''default'');
          toolsText = orDefault (lc_tools cfg) ''WebSearch,WebFetch,Read,Glob,Grep''
      in case resolvePrompt ini firstPromptName templateVars of
           Inl e \<Rightarrow> Inl e
         | Inr firstPromptText \<Rightarrow>
       case resolvePrompt ini (orDefault (lc_agentPromptName cfg) ''chorusResearcher'') [] of
           Inl e \<Rightarrow> Inl e
         | Inr agentPromptText \<Rightarrow>
       case resolvePrompt ini (orDefault (lc_summarizerPromptName cfg) ''chorusSynthesizer'')
              templateVars of
           Inl e \<Rightarrow> Inl e
         | Inr summarizerPromptText \<Rightarrow>
       case resolvePrompt ini ''resumeAddendum'' [] of
           Inl e \<Rightarrow> Inl e
         | Inr resumeAddendumText \<Rightarrow>
       case resolvePrompt ini ''jsonEnforcement'' [] of
           Inl e \<Rightarrow> Inl e
         | Inr jsonEnforcementText \<Rightarrow>
           Inr \<lparr>c_prompt =
                  (if interrogate
                   then ''Analyze the prior research findings in context of the following question: ''
                        @ userPrompt
                   else userPrompt),
                c_perspectives = perspectives,
                c_agentModel = resolveModel ini (orDefault (lc_agentModel cfg) ''sonnet''),
                c_expandModel = resolveModel ini (orDefault (lc_expandModel cfg) ''opus''),
                c_driver = toLowerCase (orDefault (lc_driver cfg) ''direct''),
                c_tools = (if toLowerCase toolsText = ''none'' then []
                           else map trim (jsSplit CHR '','' toolsText)),
                c_firstPromptName = firstPromptName,
                c_firstPromptText = firstPromptText,
                c_agentPromptText = agentPromptText,
                c_summarizerPromptText = summarizerPromptText,
                c_resumeAddendumText = resumeAddendumText,
                c_jsonEnforcementText = jsonEnforcementText,
                c_verbose = sw_verbose sw,
                c_json = sw_json sw,
                c_dryRun = sw_dryRun sw,
                c_summarize = sw_summarize sw,
                c_interrogate = interrogate,
                c_noSave = sw_noSave sw,
                c_mockApi = (sw_mockApi sw \<or> sw_dryRun sw),
                c_serialFanOut = sw_serialFanOut sw\<rparr>)"

text \<open>
  The session commands, which askMilo serves before anything else and which end the run:
  the help text, the list of sessions and the view of a session only print; the two
  others change the directory. An exception of the session manager is caught and logged.
  \<open>None\<close> when the command line holds no session command.
\<close>

definition sessionCommand :: "string \<Rightarrow> cliParameters \<Rightarrow> disk \<Rightarrow> disk option" where
  "sessionCommand now cl d =
     (if sw_help (cl_switches cl) then Some d
      else if sw_listSessions (cl_switches cl) then Some d
      else case whenGiven (v_viewSession (cl_values cl)) of
        Some viewSessionName \<Rightarrow> Some d
      | None \<Rightarrow>
      case whenGiven (v_deleteSession (cl_values cl)) of
        Some deleteSessionName \<Rightarrow>
          Some (case deleteSession deleteSessionName d of Inl e \<Rightarrow> d | Inr d' \<Rightarrow> d')
      | None \<Rightarrow>
      case whenGiven (v_renameSession (cl_values cl)) of
        Some renameSessionOld \<Rightarrow>
          (case whenGiven (v_sessionName (cl_values cl)) of
             None \<Rightarrow> Some d
           | Some renameSessionNew \<Rightarrow>
               Some (case renameSession now renameSessionOld renameSessionNew d of
                       Inl e \<Rightarrow> d
                     | Inr d' \<Rightarrow> d'))
      | None \<Rightarrow> None)"

text \<open>The check of the API key, which ends the run when it fails.\<close>

definition apiKeyPresent :: "iniFile \<Rightarrow> bool" where
  "apiKeyPresent ini =
     (case whenGiven (lc_anthropicApiKey (ini_askMilo ini)) of
        None \<Rightarrow> False
      | Some apiKey \<Rightarrow> apiKey \<noteq> ''YOUR_API_KEY_HERE'')"

text \<open>
  The session resume logic: the session named by \<^verbatim>\<open>--resumeSession\<close>, when it loads;
  when it does not, the name becomes the session name of a new session.
\<close>

definition resumeLogic :: "cliParameters \<Rightarrow> disk \<Rightarrow> session option \<times> cliParameters" where
  "resumeLogic cl d =
     (case v_resumeSession (cl_values cl) of
        None \<Rightarrow> (None, cl)
      | Some resumeSessionName \<Rightarrow>
          if resumeSessionName = [] then (None, cl)
          else (case loadSession resumeSessionName d of
                  Inr s \<Rightarrow> (Some s, cl)
                | Inl e \<Rightarrow>
                    (None, cl\<lparr>cl_values := (cl_values cl)\<lparr>v_sessionName := Some resumeSessionName\<rparr>\<rparr>)))"

text \<open>What the stages of a pipeline that ended without error left in its result.\<close>

record stageOutputs =
  o_responseText :: "string option"
  o_singleCallCost :: "cost option"
  o_instructions :: "instruction list option"
  o_results :: "perspectiveResult list option"
  o_expandCost :: "cost option"
  o_synthesis :: "string option"
  o_synthesisCost :: "cost option"
  o_elapsedSeconds :: rat

datatype pipelineOutcome = PipelineError string | PipelineDone stageOutputs

definition singleCallTurn :: "string \<Rightarrow> config \<Rightarrow> stageOutputs \<Rightarrow> int \<Rightarrow> turn" where
  "singleCallTurn now cfg out tn =
     \<lparr>turnNumber = tn,
      turnType = Some ''singleCall'',
      promptName = Some (c_firstPromptName cfg),
      prompt = c_prompt cfg,
      response = o_responseText out,
      expansion = None,
      perspectives = None,
      synthesis = None,
      totalCost = o_singleCallCost out,
      elapsedSeconds = o_elapsedSeconds out,
      timestamp = now\<rparr>"

text \<open>
  The session save in the callback of the pipeline. \<open>resumed\<close> is \<^verbatim>\<open>result.session\<close>.
  An exception inside the \<^verbatim>\<open>try\<close> is logged and nothing is written.
\<close>

definition sessionSave ::
  "string \<Rightarrow> string \<Rightarrow> cliParameters \<Rightarrow> config \<Rightarrow> session option \<Rightarrow> stageOutputs \<Rightarrow> disk \<Rightarrow> disk"
  where
  "sessionSave now generated cl cfg resumed out d =
     (if c_noSave cfg then d
      else
        case (case resumed of
                None \<Rightarrow> Some 1
              | Some s \<Rightarrow> map_option (\<lambda>ts. int (length ts) + 1) (turns s)) of
          None \<Rightarrow> d
        | Some tn \<Rightarrow>
            (let thisTurn =
                   (if c_perspectives cfg = 0 then singleCallTurn now cfg out tn
                    else buildTurnFromResults now (c_prompt cfg) (o_instructions out)
                           (o_results out) (o_expandCost out) (o_synthesis out)
                           (o_synthesisCost out) (o_elapsedSeconds out) tn)
             in case resumed of
                  Some s \<Rightarrow>
                    (case appendTurnToSession s thisTurn of
                       Inl e \<Rightarrow> d
                     | Inr s' \<Rightarrow> saveSession now s' d)
                | None \<Rightarrow>
                    (let name = (case v_sessionName (cl_values cl) of
                                   None \<Rightarrow> generated
                                 | Some n \<Rightarrow> if n = [] then generated else n)
                     in saveSession now
                          (createNewSession now name cl
                             \<lparr>pc_firstPromptName = c_firstPromptName cfg,
                              pc_perspectives = c_perspectives cfg,
                              pc_summarize = c_summarize cfg\<rparr>
                             \<lparr>sc_expandModel = c_expandModel cfg,
                              sc_agentModel = c_agentModel cfg,
                              sc_driver = c_driver cfg,
                              sc_perspectives = c_perspectives cfg\<rparr>
                             thisTurn) d)))"

text \<open>
  The run of askMilo on a command line, with the exit code of the process: 0 when the
  program returns, 1 when an exception is not caught or the pipeline ends with an error.
  The steps are those of the program: a session command, the check of the API key, the
  configuration, the resume logic, the check that there is a prompt, the pipeline and the
  session save. \<open>outcome\<close> is what the pipeline, which calls the language model, ends
  with.
\<close>

definition askMiloRun ::
  "string \<Rightarrow> string \<Rightarrow> iniFile \<Rightarrow> cliParameters \<Rightarrow> pipelineOutcome \<Rightarrow> disk \<Rightarrow> int \<times> disk" where
  "askMiloRun now generated ini cl outcome d =
     (case sessionCommand now cl d of
        Some d' \<Rightarrow> (0, d')
      | None \<Rightarrow>
          if \<not> apiKeyPresent ini then (0, d)
          else case buildConfig ini cl of
            Inl e \<Rightarrow> (1, d)
          | Inr cfg \<Rightarrow>
              (let (resumed, cl') = resumeLogic cl d
               in if c_prompt cfg = [] then (0, d)
                  else case outcome of
                         PipelineError err \<Rightarrow> (1, d)
                       | PipelineDone out \<Rightarrow>
                           (0, sessionSave now generated cl' cfg resumed out d)))"

text \<open>
  What happens to a gateway over time. A process that was spawned may run and save its
  session, and it ends with the event \<^verbatim>\<open>close\<close>. For a process that could not be
  spawned, Node emits \<^verbatim>\<open>error\<close> and, at once, \<^verbatim>\<open>close\<close> with the error number, which is
  negative, as the exit code and nothing on the standard error.
\<close>

datatype event =
    Submit string cliParameters
  | Runs nat string string iniFile pipelineOutcome
  | Close nat string "int option" string
  | SpawnError nat string int

fun findChild :: "nat \<Rightarrow> child list \<Rightarrow> child option" where
  "findChild p [] = None"
| "findChild p (c # cs) = (if pid c = p then Some c else findChild p cs)"

fun step :: "gateway \<Rightarrow> event \<Rightarrow> gateway" where
  "step g (Submit generated requestBody) =
     snd (submitServiceFunction generated requestBody g)"
| "step g (Runs p now generated ini outcome) =
     (case findChild p (children g) of
        None \<Rightarrow> g
      | Some c \<Rightarrow> g\<lparr>g_disk := snd (askMiloRun now generated ini (ch_input c) outcome (g_disk g))\<rparr>)"
| "step g (Close p now code stderrBuffer) =
     (case findChild p (children g) of
        None \<Rightarrow> g
      | Some c \<Rightarrow>
          (onClose now (ch_sessionName c) code stderrBuffer g)
            \<lparr>children := filter (\<lambda>c'. pid c' \<noteq> p) (children g)\<rparr>)"
| "step g (SpawnError p now errno) =
     (case findChild p (children g) of
        None \<Rightarrow> g
      | Some c \<Rightarrow>
          (onClose now (ch_sessionName c) (Some errno) [] (onError (ch_sessionName c) g))
            \<lparr>children := filter (\<lambda>c'. pid c' \<noteq> p) (children g)\<rparr>)"

definition startGateway :: "disk \<Rightarrow> gateway" where
  "startGateway d = \<lparr>inFlightSessions = {}, children = [], nextPid = 0, g_disk = d\<rparr>"

text \<open>The processes in flight for a session name.\<close>

definition inFlightFor :: "string \<Rightarrow> gateway \<Rightarrow> child list" where
  "inFlightFor name g = filter (\<lambda>c. ch_sessionName c = name) (children g)"

section \<open>Calls to the language model\<close>

text \<open>
  A response of the Messages API, as far as the stages read it, and the outcome of one
  call: \<^verbatim>\<open>stream.finalMessage()\<close> rejects with a reason or resolves with a response.
\<close>

datatype contentBlock =
    TextBlock string
  | ThinkingBlock string
  | ToolUseBlock string string string
  | OtherBlock string

record usage =
  input_tokens :: int
  output_tokens :: int

record apiResponse =
  content :: "contentBlock list"
  stop_reason :: string
  resp_usage :: usage

datatype apiOutcome = ApiError string | ApiResponse apiResponse

record toolResultBlock =
  tool_use_id :: string
  tr_content :: string
  tr_is_error :: bool

datatype message =
    UserText string
  | AssistantContent "contentBlock list"
  | UserToolResults "toolResultBlock list"

record requestParams =
  rq_model :: string
  rq_max_tokens :: int
  rq_system :: string
  rq_messages :: "message list"
  rq_tools :: "string list option"
  rq_thinking :: bool

text \<open>\<^verbatim>\<open>MODEL_PRICING\<close> (per million tokens) and \<^verbatim>\<open>estimateCost\<close>.\<close>

definition MODEL_PRICING :: "string \<Rightarrow> (rat \<times> rat) option" where
  "MODEL_PRICING m =
     (if m = ''claude-opus-4-6'' then Some (5, 25)
      else if m = ''claude-sonnet-4-6'' then Some (3, 15)
      else if m = ''claude-haiku-4-5'' then Some (1, 5)
      else None)"

definition estimateCost :: "string \<Rightarrow> usage \<Rightarrow> rat" where
  "estimateCost m u =
     (let (inputRate, outputRate) = (case MODEL_PRICING m of None \<Rightarrow> (3, 15) | Some r \<Rightarrow> r)
      in (of_int (input_tokens u) / 1000000) * inputRate
         + (of_int (output_tokens u) / 1000000) * outputRate)"


text \<open>
  The text of a response: the text blocks that are not empty, trimmed, those that are not
  empty then, joined by an empty line; \<^verbatim>\<open>[NO RESPONSE]\<close> when there is none.
\<close>

definition responseTextOf :: "contentBlock list \<Rightarrow> string" where
  "responseTextOf blocks =
     (let textParts =
            filter (\<lambda>t. length t > 0)
              (map trim (concat (map (\<lambda>b. case b of TextBlock t \<Rightarrow> if t = [] then [] else [t]
                                           | _ \<Rightarrow> []) blocks)))
      in if length textParts > 0 then join [CHR 0x0A, CHR 0x0A] textParts
         else ''[NO RESPONSE]'')"

section \<open>Fan-out\<close>

text \<open>
  Time is counted in ticks. A call to the language model takes its latency; code that
  awaits nothing takes no time. A promise records when its work was started, when it
  settled, and whether it was rejected (\<open>Inl\<close>, with the reason) or fulfilled.
\<close>

record apiCall =
  latency :: nat
  outcome :: apiOutcome

record 'a promise =
  p_started :: nat
  p_settled :: nat
  p_outcome :: "string + 'a"

definition mockFanOutAgent :: "config \<Rightarrow> instruction \<Rightarrow> perspectiveResult" where
  "mockFanOutAgent cfg instr =
     \<lparr>r_id = i_id instr,
      r_perspective = i_perspective instr,
      r_instruction = i_instruction instr,
      findings = ''[MOCK] Findings for perspective '' @ showInt (i_id instr) @ '': ''
                 @ i_perspective instr @ ''.'' @ [CHR 0x0A]
                 @ ''This is canned mock data for testing pipeline structure.'',
      r_model = c_agentModel cfg,
      r_cost = \<lparr>inputTokens = 200, outputTokens = 400, usd = 3 / 10000\<rparr>,
      r_turns = 1\<rparr>"

text \<open>The request that \<^verbatim>\<open>runOneAgent\<close> of the direct driver sends for an instruction.\<close>

definition agentRequest :: "config \<Rightarrow> instruction \<Rightarrow> requestParams" where
  "agentRequest cfg instr =
     \<lparr>rq_model = c_agentModel cfg, rq_max_tokens = 16384,
      rq_system = c_agentPromptText cfg,
      rq_messages = [UserText (i_instruction instr)],
      rq_tools = None,
      rq_thinking = jsIncludes (c_agentModel cfg) ''opus-4-6''\<rparr>"

definition agentResult :: "config \<Rightarrow> instruction \<Rightarrow> apiResponse \<Rightarrow> perspectiveResult" where
  "agentResult cfg instr resp =
     \<lparr>r_id = i_id instr,
      r_perspective = i_perspective instr,
      r_instruction = i_instruction instr,
      findings = responseTextOf (content resp),
      r_model = c_agentModel cfg,
      r_cost = \<lparr>inputTokens = input_tokens (resp_usage resp),
                outputTokens = output_tokens (resp_usage resp),
                usd = estimateCost (c_agentModel cfg) (resp_usage resp)\<rparr>,
      r_turns = 1\<rparr>"

text \<open>
  \<^verbatim>\<open>runOneAgent\<close> of the direct driver, called at time \<open>now\<close>; \<open>call\<close> is the
  language model answering the request of this participant. An exception in the body of
  the asynchronous function rejects its promise.
\<close>

definition runOneAgent ::
  "config \<Rightarrow> (requestParams \<Rightarrow> apiCall) \<Rightarrow> nat \<Rightarrow> instruction \<Rightarrow> perspectiveResult promise" where
  "runOneAgent cfg call now instr =
     (if c_mockApi cfg
      then \<lparr>p_started = now, p_settled = now, p_outcome = Inr (mockFanOutAgent cfg instr)\<rparr>
      else
        let answer = call (agentRequest cfg instr)
        in \<lparr>p_started = now, p_settled = now + latency answer,
            p_outcome =
              (case outcome answer of
                 ApiError reason \<Rightarrow> Inl reason
               | ApiResponse resp \<Rightarrow> Inr (agentResult cfg instr resp))\<rparr>)"

text \<open>
  \<^verbatim>\<open>instructions.map(instruction => runOneAgent({instruction, config}))\<close>: every call is
  made at the time of the \<^verbatim>\<open>map\<close>. \<open>api idx\<close> is the language model answering the call
  at position \<open>idx\<close>.
\<close>

definition agentPromises ::
  "config \<Rightarrow> (nat \<Rightarrow> requestParams \<Rightarrow> apiCall) \<Rightarrow> nat \<Rightarrow> instruction list
   \<Rightarrow> perspectiveResult promise list" where
  "agentPromises cfg api now instructions =
     map (\<lambda>(idx, instr). runOneAgent cfg (api idx) now instr) (enumerate 0 instructions)"

text \<open>The time at which \<^verbatim>\<open>await Promise.allSettled(ps)\<close>, begun at \<open>now\<close>, goes on.\<close>

definition allSettledAt :: "nat \<Rightarrow> 'a promise list \<Rightarrow> nat" where
  "allSettledAt now ps = foldl max now (map p_settled ps)"

definition failedResult :: "config \<Rightarrow> instruction \<Rightarrow> string \<Rightarrow> perspectiveResult" where
  "failedResult cfg instr reason =
     \<lparr>r_id = i_id instr,
      r_perspective = i_perspective instr,
      r_instruction = i_instruction instr,
      findings = ''[AGENT FAILED: '' @ reason @ '']'',
      r_model = c_agentModel cfg,
      r_cost = \<lparr>inputTokens = 0, outputTokens = 0, usd = 0\<rparr>,
      r_turns = 0\<rparr>"

text \<open>
  The loop over the settled promises, which the fan-out of the direct driver and the
  fan-out of the SDK driver share word for word: the value of a fulfilled promise, the
  failure entry for a rejected one.
\<close>

definition collectSettled ::
  "config \<Rightarrow> instruction list \<Rightarrow> perspectiveResult promise list \<Rightarrow> perspectiveResult list"
  where
  "collectSettled cfg instructions settled =
     map (\<lambda>(idx, settledOutcome).
            case p_outcome settledOutcome of
              Inr v \<Rightarrow> v
            | Inl reason \<Rightarrow> failedResult cfg (instructions ! idx) reason)
         (enumerate 0 settled)"

text \<open>\<^verbatim>\<open>fanOut\<close>: the results, and the time at which it returns them.\<close>

definition fanOut ::
  "config \<Rightarrow> (nat \<Rightarrow> requestParams \<Rightarrow> apiCall) \<Rightarrow> nat \<Rightarrow> instruction list
   \<Rightarrow> perspectiveResult list \<times> nat" where
  "fanOut cfg api now instructions =
     (let ps = agentPromises cfg api now instructions
      in (collectSettled cfg instructions ps, allSettledAt now ps))"

section \<open>Expansion\<close>

text \<open>
  The messages that the Agent SDK's \<^verbatim>\<open>query\<close> yields, as far as \<^verbatim>\<open>expand\<close> reads them.
  A result message carries its subtype, the structured output when there is one, the
  result text, the usage when there is one, the cost when there is one, and its errors
  as JSON text.
\<close>

record expansionData =
  d_instructions :: "instruction list option"

datatype sdkMessage =
    ResultMessage string "expansionData option" string "usage option" "rat option" string
  | OtherMessage string

datatype expandError = PayloadSyntaxError | ExpansionFailed string | ZeroInstructions

definition mockExpand :: "config \<Rightarrow> string \<Rightarrow> instruction list \<times> cost" where
  "mockExpand cfg originalPrompt =
     (map (\<lambda>i. \<lparr>i_id = i,
                 i_perspective = ''Mock Perspective '' @ showInt i,
                 i_instruction = ''[MOCK] Research instruction '' @ showInt i @ '' for: ''
                                 @ [CHR 0x22] @ take 60 originalPrompt @ ''...'' @ [CHR 0x22],
                 i_methodology = ''Mock methodology '' @ showInt i\<rparr>)
          [1..c_perspectives cfg],
      \<lparr>inputTokens = 150, outputTokens = 300, usd = 2 / 10000\<rparr>)"

text \<open>
  The request that \<^verbatim>\<open>expand\<close> hands to \<^verbatim>\<open>query\<close>: with a session context, the
  resume addendum is added to the system prompt and the context to the prompt.
\<close>

record queryRequest =
  qr_prompt :: string
  qr_model :: string
  qr_systemPrompt :: string
  qr_maxTurns :: int

definition expandRequest :: "config \<Rightarrow> string \<Rightarrow> string option \<Rightarrow> queryRequest" where
  "expandRequest cfg originalPrompt sessionContext =
     (let ctx = (case sessionContext of None \<Rightarrow> [] | Some c \<Rightarrow> c)
      in \<lparr>qr_prompt = (if ctx = [] then originalPrompt
                        else originalPrompt @ [CHR 0x0A, CHR 0x0A] @ ctx),
          qr_model = c_expandModel cfg,
          qr_systemPrompt = (if ctx = [] then c_firstPromptText cfg
                             else c_firstPromptText cfg @ c_resumeAddendumText cfg),
          qr_maxTurns = 3\<rparr>)"

text \<open>
  One round of the \<^verbatim>\<open>for await\<close> loop, on the instructions and the cost found so far.
  \<open>parse\<close> is \<^verbatim>\<open>JSON.parse\<close> on the result text, \<open>None\<close> where it throws.
\<close>

definition expandMessage ::
  "(string \<Rightarrow> expansionData option) \<Rightarrow> sdkMessage \<Rightarrow> instruction list \<times> cost
   \<Rightarrow> expandError + instruction list \<times> cost" where
  "expandMessage parse m acc =
     (case m of
        OtherMessage ty \<Rightarrow> Inr acc
      | ResultMessage subtype structured_output resultText u total_cost_usd errors \<Rightarrow>
          if subtype = ''success''
          then (case (case structured_output of Some x \<Rightarrow> Some x | None \<Rightarrow> parse resultText) of
                  None \<Rightarrow> Inl PayloadSyntaxError
                | Some d \<Rightarrow>
                    Inr (orEmpty (d_instructions d),
                         \<lparr>inputTokens = (case u of None \<Rightarrow> 0 | Some x \<Rightarrow> input_tokens x),
                          outputTokens = (case u of None \<Rightarrow> 0 | Some x \<Rightarrow> output_tokens x),
                          usd = (case total_cost_usd of None \<Rightarrow> 0 | Some x \<Rightarrow> x)\<rparr>))
          else Inl (ExpansionFailed (''Expansion failed: '' @ subtype @ '' - '' @ errors)))"

fun expandLoop ::
  "(string \<Rightarrow> expansionData option) \<Rightarrow> sdkMessage list \<Rightarrow> instruction list \<times> cost
   \<Rightarrow> expandError + instruction list \<times> cost" where
  "expandLoop parse [] acc = Inr acc"
| "expandLoop parse (m # ms) acc =
     (case expandMessage parse m acc of
        Inl e \<Rightarrow> Inl e
      | Inr acc' \<Rightarrow> expandLoop parse ms acc')"

text \<open>
  \<^verbatim>\<open>expand\<close>. \<open>query\<close> is the Agent SDK answering the one request with its stream
  of messages.
\<close>

definition expand ::
  "config \<Rightarrow> (string \<Rightarrow> expansionData option) \<Rightarrow> (queryRequest \<Rightarrow> sdkMessage list)
   \<Rightarrow> string \<Rightarrow> string option \<Rightarrow> expandError + instruction list \<times> cost" where
  "expand cfg parse query originalPrompt sessionContext =
     (if c_mockApi cfg then Inr (mockExpand cfg originalPrompt)
      else case expandLoop parse (query (expandRequest cfg originalPrompt sessionContext))
                  ([], zeroCost) of
             Inl e \<Rightarrow> Inl e
           | Inr (instructions, expandCost) \<Rightarrow>
               if length instructions = 0 then Inl ZeroInstructions
               else Inr (instructions, expandCost))"

section \<open>Single call with tools\<close>










section \<open>Notions of the specification\<close>

text \<open>The sum of the costs of turns, field by field.\<close>

definition sumTurnCosts :: "turn list \<Rightarrow> cost" where
  "sumTurnCosts ts =
     \<lparr>inputTokens = (\<Sum>t\<leftarrow>ts. inputTokens (costOrZero (totalCost t))),
      outputTokens = (\<Sum>t\<leftarrow>ts. outputTokens (costOrZero (totalCost t))),
      usd = (\<Sum>t\<leftarrow>ts. usd (costOrZero (totalCost t)))\<rparr>"

text \<open>
  The number of completed turns that the directory holds for a session name: the turns of
  its file, none when there is no file or no readable one.
\<close>

definition completedTurnCount :: "string \<Rightarrow> disk \<Rightarrow> int" where
  "completedTurnCount name d =
     (case d name of Some (Parsed s) \<Rightarrow> int (length (orEmpty (turns s))) | _ \<Rightarrow> 0)"

text \<open>The turn numbers of the turns in the file of a session name.\<close>

definition persistedTurnNumbers :: "string \<Rightarrow> disk \<Rightarrow> int list option" where
  "persistedTurnNumbers name d =
     (case d name of Some (Parsed s) \<Rightarrow> map_option (map turnNumber) (turns s) | _ \<Rightarrow> None)"

text \<open>A command line without session command: askMilo goes on to its pipeline.\<close>

definition noSessionCommand :: "cliParameters \<Rightarrow> bool" where
  "noSessionCommand cl \<longleftrightarrow>
     \<not> sw_help (cl_switches cl) \<and> \<not> sw_listSessions (cl_switches cl)
     \<and> whenGiven (v_viewSession (cl_values cl)) = None
     \<and> whenGiven (v_deleteSession (cl_values cl)) = None
     \<and> whenGiven (v_renameSession (cl_values cl)) = None"

text \<open>The invariant of the gateway: the processes in flight have distinct, registered names.\<close>

definition gatewayInv :: "gateway \<Rightarrow> bool" where
  "gatewayInv g \<longleftrightarrow>
     distinct (map ch_sessionName (children g))
     \<and> ch_sessionName ` set (children g) \<subseteq> inFlightSessions g"

definition isOtherMessage :: "sdkMessage \<Rightarrow> bool" where
  "isOtherMessage m = (case m of OtherMessage ty \<Rightarrow> True | _ \<Rightarrow> False)"

text \<open>\<^verbatim>\<open>message.structured_output || JSON.parse(message.result)\<close>, \<open>None\<close> where it throws.\<close>

definition payloadOf ::
  "(string \<Rightarrow> expansionData option) \<Rightarrow> expansionData option \<Rightarrow> string \<Rightarrow> expansionData option"
  where
  "payloadOf parse structured_output resultText =
     (case structured_output of Some x \<Rightarrow> Some x | None \<Rightarrow> parse resultText)"



section \<open>Sample values\<close>

definition mockCost :: cost where
  "mockCost = \<lparr>inputTokens = 100, outputTokens = 200, usd = 1 / 10000\<rparr>"

definition sampleTurn :: "int \<Rightarrow> turn" where
  "sampleTurn n =
     \<lparr>turnNumber = n, turnType = Some ''singleCall'', promptName = Some ''default'',
      prompt = ''What is 2+2?'', response = Some ''4'', expansion = None, perspectives = None,
      synthesis = None, totalCost = Some mockCost, elapsedSeconds = 2,
      timestamp = ''2026-03-01T10:00:00.000Z''\<rparr>"

definition noSwitches :: switches where
  "noSwitches = \<lparr>sw_help = False, sw_listSessions = False, sw_noSave = False, sw_dryRun = False,
     sw_mockApi = False, sw_summarize = False, sw_serialFanOut = False, sw_interrogate = False,
     sw_verbose = False, sw_json = False\<rparr>"

definition sampleRequest :: "string option \<Rightarrow> cliParameters" where
  "sampleRequest name =
     \<lparr>cl_switches = noSwitches,
      cl_values = \<lparr>v_sessionName = name, v_resumeSession = None, v_viewSession = None,
                   v_deleteSession = None, v_renameSession = None, v_firstPrompt = None,
                   v_perspectives = None, v_model = None\<rparr>,
      cl_fileList = [''What is 2+2?'']\<rparr>"

text \<open>The same request with the switch \<^verbatim>\<open>noSave\<close>.\<close>

definition noSaveRequest :: "string option \<Rightarrow> cliParameters" where
  "noSaveRequest name =
     (sampleRequest name)\<lparr>cl_switches := noSwitches\<lparr>sw_noSave := True\<rparr>\<rparr>"

text \<open>An .ini file with an API key, no perspectives and the five prompts.\<close>

definition sampleIni :: iniFile where
  "sampleIni =
     \<lparr>ini_askMilo =
        \<lparr>lc_anthropicApiKey = Some ''key-for-tests'', lc_perspectives = Some ''0'',
         lc_agentModel = None, lc_expandModel = None, lc_driver = None, lc_tools = Some ''none'',
         lc_chorusExpanderPromptName = None, lc_singleCallPromptName = None,
         lc_agentPromptName = None, lc_summarizerPromptName = None\<rparr>,
      ini_prompts =
        [''default'' \<mapsto> ''Answer.'', ''chorusExpander'' \<mapsto> ''Expand into {N}.'',
         ''chorusResearcher'' \<mapsto> ''Research.'', ''chorusSynthesizer'' \<mapsto> ''Synthesize {N}.'',
         ''resumeAddendum'' \<mapsto> ''Go on.'', ''jsonEnforcement'' \<mapsto> ''JSON only.''],
      ini_modelMap = [''sonnet'' \<mapsto> ''claude-sonnet-4-6'', ''opus'' \<mapsto> ''claude-opus-4-6'']\<rparr>"

definition sampleSession :: "turn list \<Rightarrow> session" where
  "sampleSession ts =
     \<lparr>sessionName = ''amber_ridge'', status = None, error = None, failedAt = None,
      createdAt = Some ''2026-03-01T10:00:00.000Z'', updatedAt = Some ''2026-03-01T10:00:00.000Z'',
      sessPromptConfig = None, sessCommandLineParameters = None, sessConfig = None,
      turns = Some ts, sessionTotalCost = Some (asSessionCost mockCost)\<rparr>"

definition sampleDisk :: "turn list \<Rightarrow> disk" where
  "sampleDisk ts = Map.empty(''amber_ridge'' \<mapsto> Parsed (sampleSession ts))"

definition sampleConfig :: config where
  "sampleConfig =
     \<lparr>c_prompt = ''Compare X and Y'', c_perspectives = 3,
      c_agentModel = ''claude-sonnet-4-6'', c_expandModel = ''claude-opus-4-6'',
      c_driver = ''direct'', c_tools = [], c_firstPromptName = ''chorusExpander'',
      c_firstPromptText = ''Expand into 3 perspectives.'',
      c_agentPromptText = ''You are a researcher.'', c_summarizerPromptText = [],
      c_resumeAddendumText = [], c_jsonEnforcementText = [],
      c_verbose = False, c_json = True, c_dryRun = False, c_summarize = False,
      c_interrogate = False, c_noSave = False, c_mockApi = False, c_serialFanOut = True\<rparr>"

definition sampleInstruction :: "int \<Rightarrow> instruction" where
  "sampleInstruction n =
     \<lparr>i_id = n, i_perspective = ''Angle '' @ showInt n,
      i_instruction = ''Study angle '' @ showInt n, i_methodology = ''survey''\<rparr>"

definition sampleResponse :: "string \<Rightarrow> string \<Rightarrow> apiResponse" where
  "sampleResponse reason t =
     \<lparr>content = [TextBlock t], stop_reason = reason,
      resp_usage = \<lparr>input_tokens = 1000, output_tokens = 2000\<rparr>\<rparr>"

text \<open>A language model that answers every call after 5 ticks.\<close>

definition slowApi :: "nat \<Rightarrow> requestParams \<Rightarrow> apiCall" where
  "slowApi idx rq = \<lparr>latency = 5, outcome = ApiResponse (sampleResponse ''end_turn'' ''done'')\<rparr>"

text \<open>A language model that rejects the second call.\<close>

definition flakyApi :: "nat \<Rightarrow> requestParams \<Rightarrow> apiCall" where
  "flakyApi idx rq =
     (if idx = 1 then \<lparr>latency = 2, outcome = ApiError ''Error: 429 rate limited''\<rparr>
      else \<lparr>latency = 5, outcome = ApiResponse (sampleResponse ''end_turn'' ''done'')\<rparr>)"

definition twoInstructionPayload :: sdkMessage where
  "twoInstructionPayload =
     ResultMessage ''success''
       (Some \<lparr>d_instructions = Some [sampleInstruction 7, sampleInstruction 9]\<rparr>) []
       (Some \<lparr>input_tokens = 150, output_tokens = 300\<rparr>) (Some (1 / 50)) ''[]''"

text \<open>An Agent SDK that answers every request with that payload.\<close>

definition twoInstructionQuery :: "queryRequest \<Rightarrow> sdkMessage list" where
  "twoInstructionQuery rq = [OtherMessage ''system'', twoInstructionPayload]"

definition noParse :: "string \<Rightarrow> expansionData option" where
  "noParse txt = None"

text \<open>A gateway with one turn in flight, for the session \<^verbatim>\<open>amber_ridge\<close>.\<close>

definition busyGateway :: gateway where
  "busyGateway = step (startGateway (sampleDisk [sampleTurn 1]))
                   (Submit ''calm_brook'' (sampleRequest (Some ''amber_ridge'')))"



section \<open>Status access point: properties\<close>

lemma checkSessionFile_reads_only: "snd (checkSessionFile name tn d) = d"
  by (simp add: checkSessionFile_def fs_existsSync_def fs_readFileSync_def Let_def
      split: option.split sessionFile.split)

text \<open>
  With the error marker and no stored message, or an empty one, the message is
  "unknown error".
\<close>

lemma checkSessionFile_fallback_message:
  assumes "d name = Some (Parsed s)" and "status s = Some ''error''"
    and "error s = None \<or> error s = Some []"
  shows "fst (checkSessionFile name tn d) = StatusError name ''unknown error''"
  using assms
  by (auto simp: checkSessionFile_def fs_existsSync_def fs_readFileSync_def errorOrUnknown_def)

text \<open>
  C2. For a turn number of at least 1, the status is decided by the session file alone:
  no file gives running with 0 completed turns; a file that does not parse gives error
  with the message "corrupt session file"; a file with the error marker and a stored
  (non-empty) message gives error with that message; a file with at least as many turns as
  the turn number gives complete with the turn at that position; any other file gives
  running with the number of turns in the file. The directory is the same afterwards.
\<close>

theorem status_from_session_file:
  assumes "1 \<le> tn"
  shows "snd (checkSessionFile name tn d) = d
    \<and> (d name = None \<longrightarrow> fst (checkSessionFile name tn d) = StatusRunning name tn 0)
    \<and> (d name = Some Unparseable \<longrightarrow>
         fst (checkSessionFile name tn d) = StatusError name ''corrupt session file'')
    \<and> (\<forall>s m. d name = Some (Parsed s) \<and> status s = Some ''error'' \<and> error s = Some m \<and> m \<noteq> []
         \<longrightarrow> fst (checkSessionFile name tn d) = StatusError name m)
    \<and> (\<forall>s. d name = Some (Parsed s) \<and> status s \<noteq> Some ''error''
              \<and> tn \<le> int (length (orEmpty (turns s)))
         \<longrightarrow> fst (checkSessionFile name tn d)
               = StatusComplete name tn (Some (orEmpty (turns s) ! nat (tn - 1))))
    \<and> (\<forall>s. d name = Some (Parsed s) \<and> status s \<noteq> Some ''error''
              \<and> int (length (orEmpty (turns s))) < tn
         \<longrightarrow> fst (checkSessionFile name tn d)
               = StatusRunning name tn (int (length (orEmpty (turns s)))))"
  using assms
  by (auto simp: checkSessionFile_def fs_existsSync_def fs_readFileSync_def errorOrUnknown_def
      jsIndex_def Let_def split: option.split sessionFile.split)

theorem status_from_session_file_witness:
  "(1::int) \<le> 1 \<and> (1::int) \<le> 2
   \<and> fst (checkSessionFile ''calm_brook'' 1 (sampleDisk [sampleTurn 1]))
       = StatusRunning ''calm_brook'' 1 0
   \<and> fst (checkSessionFile ''amber_ridge'' 1 (Map.empty(''amber_ridge'' \<mapsto> Unparseable)))
       = StatusError ''amber_ridge'' ''corrupt session file''
   \<and> fst (checkSessionFile ''amber_ridge'' 1
            (Map.empty(''amber_ridge'' \<mapsto>
               Parsed (errorSession ''2026-03-01T10:00:00.000Z'' ''amber_ridge'' (Some 1) ''boom''))))
       = StatusError ''amber_ridge'' ''askMilo exited with code 1: boom''
   \<and> fst (checkSessionFile ''amber_ridge'' 1 (sampleDisk [sampleTurn 1]))
       = StatusComplete ''amber_ridge'' 1 (Some (sampleTurn 1))
   \<and> fst (checkSessionFile ''amber_ridge'' 2 (sampleDisk [sampleTurn 1]))
       = StatusRunning ''amber_ridge'' 2 1"
proof -
  have code: "showCode (Some 1) = ''1''"
    by code_simp
  have a: "fst (checkSessionFile ''calm_brook'' 1 (sampleDisk [sampleTurn 1]))
       = StatusRunning ''calm_brook'' 1 0"
    using status_from_session_file[of 1 "''calm_brook''" "sampleDisk [sampleTurn 1]"]
    by (simp add: sampleDisk_def)
  have b: "fst (checkSessionFile ''amber_ridge'' 1 (Map.empty(''amber_ridge'' \<mapsto> Unparseable)))
       = StatusError ''amber_ridge'' ''corrupt session file''"
    using status_from_session_file[of 1 "''amber_ridge''" "Map.empty(''amber_ridge'' \<mapsto> Unparseable)"]
    by simp
  have c: "fst (checkSessionFile ''amber_ridge'' 1
            (Map.empty(''amber_ridge'' \<mapsto>
               Parsed (errorSession ''2026-03-01T10:00:00.000Z'' ''amber_ridge'' (Some 1) ''boom''))))
       = StatusError ''amber_ridge'' ''askMilo exited with code 1: boom''"
    using status_from_session_file[of 1 "''amber_ridge''"
        "Map.empty(''amber_ridge'' \<mapsto>
               Parsed (errorSession ''2026-03-01T10:00:00.000Z'' ''amber_ridge'' (Some 1) ''boom''))"]
    by (simp add: errorSession_def code)
  have d: "fst (checkSessionFile ''amber_ridge'' 1 (sampleDisk [sampleTurn 1]))
       = StatusComplete ''amber_ridge'' 1 (Some (sampleTurn 1))"
    using status_from_session_file[of 1 "''amber_ridge''" "sampleDisk [sampleTurn 1]"]
    by (simp add: sampleDisk_def sampleSession_def orEmpty_def)
  have e: "fst (checkSessionFile ''amber_ridge'' 2 (sampleDisk [sampleTurn 1]))
       = StatusRunning ''amber_ridge'' 2 1"
    using status_from_session_file[of 2 "''amber_ridge''" "sampleDisk [sampleTurn 1]"]
    by (simp add: sampleDisk_def sampleSession_def orEmpty_def)
  from a b c d e show ?thesis by simp
qed

section \<open>Session manager: properties\<close>

lemma foldl_add_sum_list: "foldl (\<lambda>s t. s + f t) (a::rat) ts = a + (\<Sum>t\<leftarrow>ts. f t)"
  by (induction ts arbitrary: a) (simp_all add: add.assoc)

text \<open>A new session has the cost of its one turn, in the three fields.\<close>

lemma createNewSession_totalCost:
  "sessionTotalCost (createNewSession now name cl pc sc t)
   = map_option (\<lambda>c. asSessionCost (sumTurnCosts [t])) (totalCost t)"
  by (cases "totalCost t")
     (simp_all add: createNewSession_def sumTurnCosts_def asSessionCost_def costOrZero_def)

text \<open>After a turn is appended, the field \<open>usd\<close> of the aggregate is the sum over the turns.\<close>

lemma appendTurnToSession_usd:
  assumes "appendTurnToSession s t = Inr s'"
  shows "map_option sumUsd (sessionTotalCost s')
         = Some (Some (usd (sumTurnCosts (orEmpty (turns s')))))"
proof -
  have c: "(case totalCost x of None \<Rightarrow> 0 | Some c \<Rightarrow> usd c) = usd (costOrZero (totalCost x))"
    for x :: turn
    by (simp add: costOrZero_def zeroCost_def split: option.split)
  obtain ts where ts: "turns s = Some ts"
    and s': "s' = s\<lparr>turns := Some (ts @ [t]),
                       sessionTotalCost :=
                         Some \<lparr>sumInputTokens = None, sumOutputTokens = None,
                               sumUsd = Some (turnsUsd (ts @ [t]))\<rparr>\<rparr>"
    using assms by (auto simp: appendTurnToSession_def split: option.splits)
  have "turnsUsd (ts @ [t]) = usd (sumTurnCosts (ts @ [t]))"
    unfolding turnsUsd_def c by (simp add: foldl_add_sum_list sumTurnCosts_def)
  with s' show ?thesis
    by (simp add: orEmpty_def)
qed

text \<open>
  C7. After \<^verbatim>\<open>appendTurnToSession\<close> the aggregate cost of the session has the field
  \<open>usd\<close> only: for a session of one turn costing 100 input tokens, 200 output tokens and
  0.0001 USD, to which a turn of the same cost is appended, the aggregate has no
  \<open>inputTokens\<close> and no \<open>outputTokens\<close>, where the sums over the turns are 200 and 400.
\<close>

theorem appendTurnToSession_keeps_only_usd:
  "map_sum id sessionTotalCost
     (appendTurnToSession (sampleSession [sampleTurn 1]) (sampleTurn 2))
   = Inr (Some \<lparr>sumInputTokens = None, sumOutputTokens = None, sumUsd = Some (1 / 5000)\<rparr>)
   \<and> asSessionCost (sumTurnCosts [sampleTurn 1, sampleTurn 2])
     = \<lparr>sumInputTokens = Some 200, sumOutputTokens = Some 400, sumUsd = Some (1 / 5000)\<rparr>"
  by (simp add: appendTurnToSession_def sampleSession_def sampleTurn_def turnsUsd_def
      mockCost_def asSessionCost_def sumTurnCosts_def costOrZero_def)

section \<open>Submission access point: properties\<close>

text \<open>
  C8. The turn number of an acknowledgement is the number of completed turns that the
  directory holds for the session name given in the submission, plus 1; it is 1 when the
  submission gives no session name and one is generated.
\<close>

theorem ack_turn_number:
  assumes "fst (submitServiceFunction generated requestBody g) = Inr ack"
  shows "(\<forall>name. v_sessionName (cl_values requestBody) = Some name \<and> name \<noteq> []
            \<longrightarrow> a_sessionName ack = name
              \<and> a_turnNumber ack = completedTurnCount name (g_disk g) + 1)
       \<and> (v_sessionName (cl_values requestBody) = None
          \<or> v_sessionName (cl_values requestBody) = Some []
            \<longrightarrow> a_sessionName ack = generated \<and> a_turnNumber ack = 1)"
  using assms
  by (auto simp: submitServiceFunction_def determineSessionAndTurn_def checkInFlight_def
      spawnAskMilo_def loadSession_def fs_existsSync_def completedTurnCount_def Let_def
      split: if_splits option.splits sessionFile.splits sum.splits prod.splits)

lemma parseInt_default_perspectives: "parseInt ''3'' = Some 3" "roundToDouble 360 = 360"
  by code_simp+

theorem ack_turn_number_witness:
  "fst (submitServiceFunction ''calm_brook'' (sampleRequest (Some ''amber_ridge''))
          (startGateway (sampleDisk [sampleTurn 1])))
     = Inr \<lparr>a_status = ''accepted'', a_sessionName = ''amber_ridge'', a_turnNumber = 2,
            a_estimatedSeconds = 360,
            a_pollAdvice = ''Wait 5 minutes before first check, then every 60 seconds.''\<rparr>
   \<and> completedTurnCount ''amber_ridge'' (g_disk (startGateway (sampleDisk [sampleTurn 1]))) + 1 = 2
   \<and> fst (submitServiceFunction ''calm_brook'' (sampleRequest None)
          (startGateway (sampleDisk [sampleTurn 1])))
     = Inr \<lparr>a_status = ''accepted'', a_sessionName = ''calm_brook'', a_turnNumber = 1,
            a_estimatedSeconds = 360,
            a_pollAdvice = ''Wait 5 minutes before first check, then every 60 seconds.''\<rparr>"
proof -
  let ?g = "startGateway (sampleDisk [sampleTurn 1])"
  let ?ack = "\<lparr>a_status = ''accepted'', a_sessionName = ''amber_ridge'', a_turnNumber = 2,
            a_estimatedSeconds = 360,
            a_pollAdvice = ''Wait 5 minutes before first check, then every 60 seconds.''\<rparr>"
  let ?ack' = "\<lparr>a_status = ''accepted'', a_sessionName = ''calm_brook'', a_turnNumber = 1,
            a_estimatedSeconds = 360,
            a_pollAdvice = ''Wait 5 minutes before first check, then every 60 seconds.''\<rparr>"
  have h: "fst (submitServiceFunction ''calm_brook'' (sampleRequest (Some ''amber_ridge'')) ?g)
           = Inr ?ack"
    by (simp add: submitServiceFunction_def determineSessionAndTurn_def checkInFlight_def
        spawnAskMilo_def loadSession_def fs_existsSync_def startGateway_def sampleDisk_def
        sampleRequest_def sampleSession_def orEmpty_def parseInt_default_perspectives)
  have h': "fst (submitServiceFunction ''calm_brook'' (sampleRequest None) ?g) = Inr ?ack'"
    by (simp add: submitServiceFunction_def determineSessionAndTurn_def checkInFlight_def
        spawnAskMilo_def startGateway_def sampleRequest_def parseInt_default_perspectives)
  have "completedTurnCount ''amber_ridge'' (g_disk ?g) + 1 = 2"
    using ack_turn_number[OF h] by (simp add: sampleRequest_def)
  moreover have "a_turnNumber ?ack' = 1"
    using ack_turn_number[OF h'] by (simp add: sampleRequest_def)
  ultimately show ?thesis
    using h h' by simp
qed



lemma join_nonempty: "join sep xs \<noteq> [] \<Longrightarrow> xs \<noteq> []"
  by (cases xs) auto

text \<open>What a configuration that was built has from the command line.\<close>

lemma buildConfig_from_command_line:
  assumes "buildConfig ini cl = Inr cfg"
  shows "c_noSave cfg = sw_noSave (cl_switches cl)"
    and "join '' '' (cl_fileList cl) \<noteq> [] \<Longrightarrow> c_prompt cfg \<noteq> []"
  using assms
  by (auto simp: buildConfig_def Let_def split: sum.splits if_splits)

lemma sessionCommand_none:
  "noSessionCommand cl \<Longrightarrow> sessionCommand now cl d = None"
  by (simp add: noSessionCommand_def sessionCommand_def)

lemma resumeLogic_none:
  "whenGiven (v_resumeSession (cl_values cl)) = None \<Longrightarrow> resumeLogic cl d = (None, cl)"
  by (auto simp: resumeLogic_def whenGiven_def split: option.splits if_splits)

text \<open>
  A run without session command, without \<^verbatim>\<open>resumeSession\<close> and without \<^verbatim>\<open>noSave\<close>,
  with a prompt, an API key and a configuration that builds, whose pipeline ends without
  error, leaves a session file of one turn with turn number 1, whatever was in the
  directory.
\<close>

lemma fresh_run_saves_one_turn:
  assumes "v_sessionName (cl_values cl) = Some name" and "name \<noteq> []"
    and "whenGiven (v_resumeSession (cl_values cl)) = None"
    and "noSessionCommand cl"
    and "\<not> sw_noSave (cl_switches cl)"
    and "join '' '' (cl_fileList cl) \<noteq> []"
    and "apiKeyPresent ini" and "\<not> isl (buildConfig ini cl)"
  shows "fst (askMiloRun now generated ini cl (PipelineDone out) d) = 0
    \<and> persistedTurnNumbers name (snd (askMiloRun now generated ini cl (PipelineDone out) d))
        = Some [1]
    \<and> (\<exists>s'. snd (askMiloRun now generated ini cl (PipelineDone out) d) name = Some (Parsed s')
              \<and> status s' = None)"
proof -
  from assms(8) obtain cfg where cfg: "buildConfig ini cl = Inr cfg"
    by (cases "buildConfig ini cl") auto
  from buildConfig_from_command_line[OF cfg] assms(5,6)
  have flags: "\<not> c_noSave cfg" "c_prompt cfg \<noteq> []"
    by simp_all
  have run: "askMiloRun now generated ini cl (PipelineDone out) d
      = (0, sessionSave now generated cl cfg None out d)"
    using assms(7) cfg flags
    by (simp add: askMiloRun_def sessionCommand_none[OF assms(4)] resumeLogic_none[OF assms(3)])
  show ?thesis
    unfolding run using assms(1,2) flags
    by (simp add: sessionSave_def Let_def saveSession_def createNewSession_def
        persistedTurnNumbers_def singleCallTurn_def buildTurnFromResults_def)
qed

text \<open>A session file of one turn never answers complete for a turn number from 2 on.\<close>

lemma one_turn_never_complete:
  assumes "persistedTurnNumbers name d = Some [n]" and "2 \<le> tn"
  shows "fst (checkSessionFile name tn d) \<noteq> StatusComplete name tn t"
  using assms
  by (auto simp: persistedTurnNumbers_def checkSessionFile_def fs_existsSync_def
      fs_readFileSync_def orEmpty_def Let_def split: option.splits sessionFile.splits)

lemma sampleIni_builds:
  "\<not> isl (buildConfig sampleIni (askMiloInput (sampleRequest (Some ''amber_ridge'')) ''amber_ridge''))"
  "\<not> isl (buildConfig sampleIni (askMiloInput (noSaveRequest (Some ''amber_ridge'')) ''amber_ridge''))"
  by code_simp+

lemma sampleIni_apiKey: "apiKeyPresent sampleIni"
  by code_simp

text \<open>
  C4, as stated, fails: the gateway hands the switches of the submission on to askMilo,
  and with the switch \<^verbatim>\<open>noSave\<close> askMilo saves nothing. A submission with that switch
  that names the session \<^verbatim>\<open>amber_ridge\<close> of two turns, without \<^verbatim>\<open>resumeSession\<close> value,
  is acknowledged with turn number 3; its process, when the pipeline ends without error,
  exits with code 0 and leaves the directory as it was, the file with its turns 1 and 2.
\<close>

theorem resubmission_noSave_keeps_turns:
  "v_resumeSession (cl_values (noSaveRequest (Some ''amber_ridge''))) = None
   \<and> persistedTurnNumbers ''amber_ridge'' (sampleDisk [sampleTurn 1, sampleTurn 2]) = Some [1, 2]
   \<and> map_sum id a_turnNumber
        (fst (submitServiceFunction ''calm_brook'' (noSaveRequest (Some ''amber_ridge''))
                (startGateway (sampleDisk [sampleTurn 1, sampleTurn 2]))))
      = Inr 3
   \<and> map ch_input
        (children (snd (submitServiceFunction ''calm_brook'' (noSaveRequest (Some ''amber_ridge''))
                          (startGateway (sampleDisk [sampleTurn 1, sampleTurn 2])))))
      = [askMiloInput (noSaveRequest (Some ''amber_ridge'')) ''amber_ridge'']
   \<and> sw_noSave (cl_switches (askMiloInput (noSaveRequest (Some ''amber_ridge'')) ''amber_ridge''))
   \<and> askMiloRun ''2026-03-01T10:05:00.000Z'' ''calm_brook'' sampleIni
        (askMiloInput (noSaveRequest (Some ''amber_ridge'')) ''amber_ridge'')
        (PipelineDone \<lparr>o_responseText = Some ''4'', o_singleCallCost = Some mockCost,
           o_instructions = None, o_results = None, o_expandCost = None,
           o_synthesis = None, o_synthesisCost = None, o_elapsedSeconds = 2\<rparr>)
        (sampleDisk [sampleTurn 1, sampleTurn 2])
      = (0, sampleDisk [sampleTurn 1, sampleTurn 2])"
proof -
  let ?cl = "askMiloInput (noSaveRequest (Some ''amber_ridge'')) ''amber_ridge''"
  let ?d = "sampleDisk [sampleTurn 1, sampleTurn 2]"
  obtain cfg where cfg: "buildConfig sampleIni ?cl = Inr cfg"
    using sampleIni_builds(2) by (cases "buildConfig sampleIni ?cl") auto
  have noSave: "sw_noSave (cl_switches ?cl)"
    by (simp add: askMiloInput_def noSaveRequest_def)
  have prompt: "join '' '' (cl_fileList ?cl) \<noteq> []"
    by (simp add: askMiloInput_def noSaveRequest_def sampleRequest_def)
  from buildConfig_from_command_line[OF cfg] noSave prompt
  have flags: "c_noSave cfg" "c_prompt cfg \<noteq> []"
    by simp_all
  have cmd: "noSessionCommand ?cl"
    by (simp add: noSessionCommand_def askMiloInput_def noSaveRequest_def sampleRequest_def
        noSwitches_def whenGiven_def)
  have res: "whenGiven (v_resumeSession (cl_values ?cl)) = None"
    by (simp add: askMiloInput_def noSaveRequest_def sampleRequest_def whenGiven_def)
  have run: "askMiloRun ''2026-03-01T10:05:00.000Z'' ''calm_brook'' sampleIni ?cl
        (PipelineDone \<lparr>o_responseText = Some ''4'', o_singleCallCost = Some mockCost,
           o_instructions = None, o_results = None, o_expandCost = None,
           o_synthesis = None, o_synthesisCost = None, o_elapsedSeconds = 2\<rparr>) ?d = (0, ?d)"
    using cfg flags sampleIni_apiKey
    by (simp add: askMiloRun_def sessionCommand_none[OF cmd] resumeLogic_none[OF res]
        sessionSave_def)
  have turns: "persistedTurnNumbers ''amber_ridge'' ?d = Some [1, 2]"
    by (simp add: persistedTurnNumbers_def sampleDisk_def sampleSession_def sampleTurn_def)
  have ack: "map_sum id a_turnNumber
        (fst (submitServiceFunction ''calm_brook'' (noSaveRequest (Some ''amber_ridge''))
                (startGateway ?d))) = Inr 3"
    and spawned: "map ch_input
        (children (snd (submitServiceFunction ''calm_brook'' (noSaveRequest (Some ''amber_ridge''))
                          (startGateway ?d)))) = [?cl]"
    by (simp_all add: submitServiceFunction_def determineSessionAndTurn_def checkInFlight_def
        spawnAskMilo_def loadSession_def fs_existsSync_def startGateway_def sampleDisk_def
        noSaveRequest_def sampleRequest_def sampleSession_def orEmpty_def Let_def)
  have "v_resumeSession (cl_values (noSaveRequest (Some ''amber_ridge''))) = None"
    by (simp add: noSaveRequest_def sampleRequest_def)
  with turns ack spawned noSave run show ?thesis
    by (elim conjE | intro conjI | assumption)+
qed

text \<open>
  C4, amended. A submission names a session whose file holds k turns, k at least 1, and
  the name is not in flight. It gives no \<^verbatim>\<open>resumeSession\<close> value, no session command
  (\<^verbatim>\<open>help\<close>, \<^verbatim>\<open>listSessions\<close>, \<^verbatim>\<open>viewSession\<close>, \<^verbatim>\<open>deleteSession\<close>, \<^verbatim>\<open>renameSession\<close>) and no
  switch \<^verbatim>\<open>noSave\<close>, and its prompt is not empty; the .ini file of askMilo has an API key
  and a text for every prompt of the configuration. Then the acknowledgement has turn
  number k + 1 and a process is spawned with the session name in its input. When the
  pipeline of that process ends without error, the process exits with code 0 and the
  session file then holds one turn, with turn number 1, whatever the directory held
  before; and the status query for turn k + 1 answers running with 1 completed turn.
\<close>

theorem resubmission_overwrites_session:
  assumes "g_disk g name = Some (Parsed s)" and "turns s = Some ts" and "1 \<le> length ts"
    and "v_sessionName (cl_values requestBody) = Some name" and "name \<noteq> []"
    and "name \<notin> inFlightSessions g"
    and "whenGiven (v_resumeSession (cl_values requestBody)) = None"
    and "noSessionCommand requestBody"
    and "\<not> sw_noSave (cl_switches requestBody)"
    and "join '' '' (cl_fileList requestBody) \<noteq> []"
    and "apiKeyPresent ini"
    and "\<not> isl (buildConfig ini (askMiloInput requestBody name))"
  shows "map_sum id a_turnNumber (fst (submitServiceFunction generated requestBody g))
           = Inr (int (length ts) + 1)
    \<and> children (snd (submitServiceFunction generated requestBody g))
         = children g @ [\<lparr>pid = nextPid g, ch_sessionName = name,
                          ch_input = askMiloInput requestBody name\<rparr>]
    \<and> fst (askMiloRun now generated' ini (askMiloInput requestBody name) (PipelineDone out) d) = 0
    \<and> persistedTurnNumbers name
         (snd (askMiloRun now generated' ini (askMiloInput requestBody name) (PipelineDone out) d))
         = Some [1]
    \<and> fst (checkSessionFile name (int (length ts) + 1)
         (snd (askMiloRun now generated' ini (askMiloInput requestBody name) (PipelineDone out) d)))
         = StatusRunning name (int (length ts) + 1) 1"
proof -
  have nonempty: "cl_fileList requestBody \<noteq> []"
    using assms(10) by (rule join_nonempty)
  have submit: "submitServiceFunction generated requestBody g
      = (let (ack, g2) = spawnAskMilo requestBody name (int (length ts) + 1)
                           (g\<lparr>inFlightSessions := insert name (inFlightSessions g)\<rparr>)
         in (Inr ack, g2))"
    using assms(1-6) nonempty
    by (simp add: submitServiceFunction_def determineSessionAndTurn_def checkInFlight_def
        fs_existsSync_def loadSession_def orEmpty_def)
  have input: "v_sessionName (cl_values (askMiloInput requestBody name)) = Some name"
    "whenGiven (v_resumeSession (cl_values (askMiloInput requestBody name))) = None"
    "noSessionCommand (askMiloInput requestBody name)"
    "\<not> sw_noSave (cl_switches (askMiloInput requestBody name))"
    "join '' '' (cl_fileList (askMiloInput requestBody name)) \<noteq> []"
    using assms(7-10) by (simp_all add: askMiloInput_def noSessionCommand_def)
  note run = fresh_run_saves_one_turn[OF input(1) assms(5) input(2) input(3) input(4) input(5)
      assms(11) assms(12), of now generated' out d]
  let ?d' = "snd (askMiloRun now generated' ini (askMiloInput requestBody name)
                    (PipelineDone out) d)"
  from run obtain s' t where s': "?d' name = Some (Parsed s')" "turns s' = Some [t]"
    "status s' = None"
    by (auto simp: persistedTurnNumbers_def split: option.splits sessionFile.splits)
  have poll: "fst (checkSessionFile name (int (length ts) + 1) ?d')
      = StatusRunning name (int (length ts) + 1) 1"
    using s' assms(3)
    by (cases ts) (simp_all add: checkSessionFile_def fs_existsSync_def fs_readFileSync_def
        orEmpty_def Let_def)
  show ?thesis
    using submit run poll by (simp add: spawnAskMilo_def Let_def)
qed

theorem resubmission_overwrites_session_witness:
  "g_disk (startGateway (sampleDisk [sampleTurn 1, sampleTurn 2])) ''amber_ridge''
     = Some (Parsed (sampleSession [sampleTurn 1, sampleTurn 2]))
   \<and> turns (sampleSession [sampleTurn 1, sampleTurn 2]) = Some [sampleTurn 1, sampleTurn 2]
   \<and> 1 \<le> length [sampleTurn 1, sampleTurn 2]
   \<and> v_sessionName (cl_values (sampleRequest (Some ''amber_ridge''))) = Some ''amber_ridge''
   \<and> ''amber_ridge'' \<noteq> []
   \<and> ''amber_ridge'' \<notin> inFlightSessions (startGateway (sampleDisk [sampleTurn 1, sampleTurn 2]))
   \<and> whenGiven (v_resumeSession (cl_values (sampleRequest (Some ''amber_ridge'')))) = None
   \<and> noSessionCommand (sampleRequest (Some ''amber_ridge''))
   \<and> \<not> sw_noSave (cl_switches (sampleRequest (Some ''amber_ridge'')))
   \<and> join '' '' (cl_fileList (sampleRequest (Some ''amber_ridge''))) \<noteq> []
   \<and> apiKeyPresent sampleIni
   \<and> \<not> isl (buildConfig sampleIni
               (askMiloInput (sampleRequest (Some ''amber_ridge'')) ''amber_ridge''))
   \<and> map_sum id a_turnNumber
        (fst (submitServiceFunction ''calm_brook'' (sampleRequest (Some ''amber_ridge''))
                (startGateway (sampleDisk [sampleTurn 1, sampleTurn 2]))))
      = Inr 3
   \<and> persistedTurnNumbers ''amber_ridge''
        (snd (askMiloRun ''2026-03-01T10:05:00.000Z'' ''calm_brook'' sampleIni
                (askMiloInput (sampleRequest (Some ''amber_ridge'')) ''amber_ridge'')
                (PipelineDone \<lparr>o_responseText = Some ''4'', o_singleCallCost = Some mockCost,
                   o_instructions = None, o_results = None, o_expandCost = None,
                   o_synthesis = None, o_synthesisCost = None, o_elapsedSeconds = 2\<rparr>)
                (sampleDisk [sampleTurn 1, sampleTurn 2])))
      = Some [1]
   \<and> fst (checkSessionFile ''amber_ridge'' 3
        (snd (askMiloRun ''2026-03-01T10:05:00.000Z'' ''calm_brook'' sampleIni
                (askMiloInput (sampleRequest (Some ''amber_ridge'')) ''amber_ridge'')
                (PipelineDone \<lparr>o_responseText = Some ''4'', o_singleCallCost = Some mockCost,
                   o_instructions = None, o_results = None, o_expandCost = None,
                   o_synthesis = None, o_synthesisCost = None, o_elapsedSeconds = 2\<rparr>)
                (sampleDisk [sampleTurn 1, sampleTurn 2]))))
      = StatusRunning ''amber_ridge'' 3 1"
proof -
  have h1: "g_disk (startGateway (sampleDisk [sampleTurn 1, sampleTurn 2])) ''amber_ridge''
     = Some (Parsed (sampleSession [sampleTurn 1, sampleTurn 2]))"
    by (simp add: startGateway_def sampleDisk_def)
  have h2: "turns (sampleSession [sampleTurn 1, sampleTurn 2]) = Some [sampleTurn 1, sampleTurn 2]"
    by (simp add: sampleSession_def)
  have h3: "1 \<le> length [sampleTurn 1, sampleTurn 2]"
    by simp
  have h4: "v_sessionName (cl_values (sampleRequest (Some ''amber_ridge''))) = Some ''amber_ridge''"
    by (simp add: sampleRequest_def)
  have h5: "''amber_ridge'' \<noteq> []"
    by simp
  have h6: "''amber_ridge''
      \<notin> inFlightSessions (startGateway (sampleDisk [sampleTurn 1, sampleTurn 2]))"
    by (simp add: startGateway_def)
  have h7: "whenGiven (v_resumeSession (cl_values (sampleRequest (Some ''amber_ridge'')))) = None"
    by (simp add: sampleRequest_def whenGiven_def)
  have h8: "noSessionCommand (sampleRequest (Some ''amber_ridge''))"
    by (simp add: noSessionCommand_def sampleRequest_def noSwitches_def whenGiven_def)
  have h9: "\<not> sw_noSave (cl_switches (sampleRequest (Some ''amber_ridge'')))"
    by (simp add: sampleRequest_def noSwitches_def)
  have h10: "join '' '' (cl_fileList (sampleRequest (Some ''amber_ridge''))) \<noteq> []"
    by (simp add: sampleRequest_def)
  note h11 = sampleIni_apiKey
  note h12 = sampleIni_builds(1)
  show ?thesis
    using h1 h2 h3 h4 h5 h6 h7 h8 h9 h10 h11 h12
      resubmission_overwrites_session[OF h1 h2 h3 h4 h5 h6 h7 h8 h9 h10 h11 h12,
        of "''calm_brook''" "''2026-03-01T10:05:00.000Z''" "''calm_brook''"
          "\<lparr>o_responseText = Some ''4'', o_singleCallCost = Some mockCost,
                   o_instructions = None, o_results = None, o_expandCost = None,
                   o_synthesis = None, o_synthesisCost = None, o_elapsedSeconds = 2\<rparr>"
          "sampleDisk [sampleTurn 1, sampleTurn 2]"]
    by simp
qed

text \<open>The gateway invariant holds at the start and after every event.\<close>

lemma findChild_Some: "findChild p cs = Some c \<Longrightarrow> c \<in> set cs \<and> pid c = p"
  by (induction cs) (auto split: if_splits)

lemma filter_keeps_distinct_map:
  "distinct (map f xs) \<Longrightarrow> distinct (map f (filter P xs))"
  by (induction xs) auto

lemma at_most_one_of_distinct:
  "distinct (map f xs) \<Longrightarrow> length (filter (\<lambda>x. f x = a) xs) \<le> Suc 0"
proof (induction xs)
  case Nil
  then show ?case by simp
next
  case (Cons x xs)
  show ?case
  proof (cases "f x = a")
    case True
    have "f y \<noteq> a" if "y \<in> set xs" for y
      using that True Cons.prems by (auto simp: image_iff)
    then have "filter (\<lambda>x. f x = a) xs = []"
      by (simp add: filter_empty_conv)
    with True show ?thesis by simp
  next
    case False
    with Cons show ?thesis by simp
  qed
qed

lemma submit_keeps_gatewayInv:
  assumes "gatewayInv g"
  shows "gatewayInv (snd (submitServiceFunction generated requestBody g))"
  using assms
  by (auto simp: submitServiceFunction_def checkInFlight_def spawnAskMilo_def gatewayInv_def
      Let_def split: sum.split prod.split if_splits)

lemma ended_child_keeps_gatewayInv:
  assumes "gatewayInv g" and "findChild p (children g) = Some c"
  shows "distinct (map ch_sessionName (filter (\<lambda>c'. pid c' \<noteq> p) (children g)))
     \<and> ch_sessionName ` set (filter (\<lambda>c'. pid c' \<noteq> p) (children g))
         \<subseteq> inFlightSessions g - {ch_sessionName c}"
proof -
  from assms(2) have c: "c \<in> set (children g)" "pid c = p"
    using findChild_Some by fastforce+
  from assms(1) have d: "distinct (map ch_sessionName (children g))"
    and s: "ch_sessionName ` set (children g) \<subseteq> inFlightSessions g"
    by (simp_all add: gatewayInv_def)
  have "ch_sessionName c' \<noteq> ch_sessionName c"
    if "c' \<in> set (children g)" "pid c' \<noteq> p" for c'
    using that c d by (metis distinct_map inj_onD)
  with s show ?thesis
    using d by (auto simp: filter_keeps_distinct_map)
qed

lemma step_keeps_gatewayInv:
  assumes "gatewayInv g"
  shows "gatewayInv (step g e)"
proof (cases e)
  case (Submit generated requestBody)
  with assms show ?thesis by (simp add: submit_keeps_gatewayInv)
next
  case (Runs p now generated ini pipelineOutcome)
  with assms show ?thesis by (simp add: gatewayInv_def split: option.split)
next
  case (Close p now code stderrBuffer)
  show ?thesis
  proof (cases "findChild p (children g)")
    case None
    with Close assms show ?thesis by simp
  next
    case (Some c)
    from ended_child_keeps_gatewayInv[OF assms Some] Close Some show ?thesis
      by (simp add: gatewayInv_def onClose_def Let_def)
  qed
next
  case (SpawnError p now errno)
  show ?thesis
  proof (cases "findChild p (children g)")
    case None
    with SpawnError assms show ?thesis by simp
  next
    case (Some c)
    from ended_child_keeps_gatewayInv[OF assms Some] SpawnError Some show ?thesis
      by (auto simp: gatewayInv_def onError_def onClose_def Let_def)
  qed
qed

lemma events_keep_gatewayInv: "gatewayInv g \<Longrightarrow> gatewayInv (foldl step g es)"
  by (induction es arbitrary: g) (simp_all add: step_keeps_gatewayInv)

lemma startGateway_gatewayInv: "gatewayInv (startGateway d)"
  by (simp add: gatewayInv_def startGateway_def)

lemma busyGateway_state:
  "inFlightSessions busyGateway = {''amber_ridge''}"
  "g_disk busyGateway = sampleDisk [sampleTurn 1]"
  by (simp_all add: busyGateway_def startGateway_def sampleDisk_def sampleRequest_def
      submitServiceFunction_def determineSessionAndTurn_def checkInFlight_def spawnAskMilo_def
      fs_existsSync_def loadSession_def sampleSession_def orEmpty_def Let_def)

text \<open>
  C5. A submission that stage 1 resolves to a session name registered as in flight is
  answered with the error that the session already has a turn in progress, and the
  gateway (registry, processes, directory) is as before. A submission resolved to a name
  that is not registered spawns its process on a gateway in which the name is already
  registered. The handlers of close and of error take the name out of the registry. After
  any sequence of events from the start of the gateway, at most one process is in flight
  for any session name.
\<close>

theorem one_turn_in_flight_per_session:
  "(determineSessionAndTurn generated requestBody (g_disk g) = Inr (name, tn)
      \<and> name \<in> inFlightSessions g
      \<longrightarrow> submitServiceFunction generated requestBody g = (Inl (inFlightMessage name), g))
   \<and> (determineSessionAndTurn generated requestBody (g_disk g) = Inr (name, tn)
      \<and> name \<notin> inFlightSessions g
      \<longrightarrow> snd (submitServiceFunction generated requestBody g)
           = snd (spawnAskMilo requestBody name tn
                    (g\<lparr>inFlightSessions := insert name (inFlightSessions g)\<rparr>))
        \<and> name \<in> inFlightSessions (snd (submitServiceFunction generated requestBody g)))
   \<and> name \<notin> inFlightSessions (onClose now name code stderrBuffer g)
   \<and> name \<notin> inFlightSessions (onError name g)
   \<and> length (inFlightFor name (foldl step (startGateway d) es)) \<le> 1"
proof -
  have dup: "submitServiceFunction generated requestBody g = (Inl (inFlightMessage name), g)"
    if "determineSessionAndTurn generated requestBody (g_disk g) = Inr (name, tn)"
      and "name \<in> inFlightSessions g"
    using that by (simp add: submitServiceFunction_def checkInFlight_def)
  have acc: "snd (submitServiceFunction generated requestBody g)
           = snd (spawnAskMilo requestBody name tn
                    (g\<lparr>inFlightSessions := insert name (inFlightSessions g)\<rparr>))
        \<and> name \<in> inFlightSessions (snd (submitServiceFunction generated requestBody g))"
    if "determineSessionAndTurn generated requestBody (g_disk g) = Inr (name, tn)"
      and "name \<notin> inFlightSessions g"
    using that
    by (simp add: submitServiceFunction_def checkInFlight_def spawnAskMilo_def Let_def)
  have closed: "name \<notin> inFlightSessions (onClose now name code stderrBuffer g)"
    by (simp add: onClose_def Let_def)
  have failed: "name \<notin> inFlightSessions (onError name g)"
    by (simp add: onError_def)
  have one: "length (inFlightFor name (foldl step (startGateway d) es)) \<le> 1"
    using events_keep_gatewayInv[OF startGateway_gatewayInv, of d es]
    by (simp add: gatewayInv_def inFlightFor_def at_most_one_of_distinct)
  from dup acc closed failed one show ?thesis by blast
qed

theorem one_turn_in_flight_per_session_witness:
  "determineSessionAndTurn ''calm_brook'' (sampleRequest (Some ''amber_ridge''))
       (g_disk busyGateway) = Inr (''amber_ridge'', 2)
   \<and> ''amber_ridge'' \<in> inFlightSessions busyGateway
   \<and> submitServiceFunction ''calm_brook'' (sampleRequest (Some ''amber_ridge'')) busyGateway
       = (Inl (inFlightMessage ''amber_ridge''), busyGateway)
   \<and> determineSessionAndTurn ''calm_brook'' (sampleRequest None) (g_disk busyGateway)
       = Inr (''calm_brook'', 1)
   \<and> ''calm_brook'' \<notin> inFlightSessions busyGateway
   \<and> ''calm_brook'' \<in> inFlightSessions
        (snd (submitServiceFunction ''calm_brook'' (sampleRequest None) busyGateway))"
proof -
  have r: "determineSessionAndTurn ''calm_brook'' (sampleRequest (Some ''amber_ridge''))
       (g_disk busyGateway) = Inr (''amber_ridge'', 2)"
    by (simp add: busyGateway_state determineSessionAndTurn_def sampleRequest_def sampleDisk_def
        fs_existsSync_def loadSession_def sampleSession_def orEmpty_def)
  have r2: "determineSessionAndTurn ''calm_brook'' (sampleRequest None) (g_disk busyGateway)
       = Inr (''calm_brook'', 1)"
    by (simp add: busyGateway_state determineSessionAndTurn_def sampleRequest_def)
  have i: "''amber_ridge'' \<in> inFlightSessions busyGateway"
    and j: "''calm_brook'' \<notin> inFlightSessions busyGateway"
    by (simp_all add: busyGateway_state)
  from one_turn_in_flight_per_session[of "''calm_brook''" "sampleRequest (Some ''amber_ridge'')"
      busyGateway "''amber_ridge''" 2] r i
  have a: "submitServiceFunction ''calm_brook'' (sampleRequest (Some ''amber_ridge''))
             busyGateway
       = (Inl (inFlightMessage ''amber_ridge''), busyGateway)"
    by blast
  from one_turn_in_flight_per_session[of "''calm_brook''" "sampleRequest None"
      busyGateway "''calm_brook''" 1] r2 j
  have b: "''calm_brook'' \<in> inFlightSessions
        (snd (submitServiceFunction ''calm_brook'' (sampleRequest None) busyGateway))"
    by blast
  from r i a r2 j b show ?thesis by blast
qed

section \<open>Fan-out: properties\<close>

text \<open>
  C3. A fan-out over M instructions returns M results, the i-th for the i-th instruction
  (same id, perspective and instruction). The i-th result is decided by the promise of
  the i-th participant alone: its value when fulfilled, and when rejected the entry whose
  findings are the failure marker \<^verbatim>\<open>[AGENT FAILED: reason]\<close> and whose cost is zero in
  the three fields. The same holds of the loop over the settled promises for any M
  promises, whichever driver made them.
\<close>

theorem fanOut_isolates_failures:
  assumes "i < length instructions"
  shows "length (fst (fanOut cfg api now instructions)) = length instructions
    \<and> r_id (fst (fanOut cfg api now instructions) ! i) = i_id (instructions ! i)
    \<and> r_perspective (fst (fanOut cfg api now instructions) ! i) = i_perspective (instructions ! i)
    \<and> r_instruction (fst (fanOut cfg api now instructions) ! i) = i_instruction (instructions ! i)
    \<and> fst (fanOut cfg api now instructions) ! i
        = (case p_outcome (runOneAgent cfg (api i) now (instructions ! i)) of
             Inr v \<Rightarrow> v
           | Inl reason \<Rightarrow> failedResult cfg (instructions ! i) reason)
    \<and> (\<forall>reason. \<not> c_mockApi cfg
          \<and> outcome (api i (agentRequest cfg (instructions ! i))) = ApiError reason
        \<longrightarrow> findings (fst (fanOut cfg api now instructions) ! i)
              = ''[AGENT FAILED: '' @ reason @ '']''
          \<and> r_cost (fst (fanOut cfg api now instructions) ! i)
              = \<lparr>inputTokens = 0, outputTokens = 0, usd = 0\<rparr>)
    \<and> (\<forall>ps. length ps = length instructions
        \<longrightarrow> length (collectSettled cfg instructions ps) = length instructions
          \<and> collectSettled cfg instructions ps ! i
              = (case p_outcome (ps ! i) of
                   Inr v \<Rightarrow> v
                 | Inl reason \<Rightarrow> failedResult cfg (instructions ! i) reason))"
proof -
  let ?ps = "agentPromises cfg api now instructions"
  let ?r = "fst (fanOut cfg api now instructions) ! i"
  have any: "length (collectSettled cfg instructions ps) = length instructions
          \<and> collectSettled cfg instructions ps ! i
              = (case p_outcome (ps ! i) of
                   Inr v \<Rightarrow> v
                 | Inl reason \<Rightarrow> failedResult cfg (instructions ! i) reason)"
    if "length ps = length instructions" for ps
    using that assms by (simp add: collectSettled_def nth_enumerate_eq)
  have len: "length ?ps = length instructions"
    by (simp add: agentPromises_def)
  have p: "?ps ! i = runOneAgent cfg (api i) now (instructions ! i)"
    using assms by (simp add: agentPromises_def nth_enumerate_eq)
  have r: "?r = (case p_outcome (runOneAgent cfg (api i) now (instructions ! i)) of
                   Inr v \<Rightarrow> v
                 | Inl reason \<Rightarrow> failedResult cfg (instructions ! i) reason)"
    using any[OF len] p by (simp add: fanOut_def Let_def)
  have l: "length (fst (fanOut cfg api now instructions)) = length instructions"
    using any[OF len] by (simp add: fanOut_def Let_def)
  have ident: "r_id ?r = i_id (instructions ! i)"
    "r_perspective ?r = i_perspective (instructions ! i)"
    "r_instruction ?r = i_instruction (instructions ! i)"
    unfolding r
    by (simp_all add: runOneAgent_def mockFanOutAgent_def agentResult_def failedResult_def
        Let_def split: apiOutcome.split)
  have failed: "findings ?r = ''[AGENT FAILED: '' @ reason @ '']''
          \<and> r_cost ?r = \<lparr>inputTokens = 0, outputTokens = 0, usd = 0\<rparr>"
    if "\<not> c_mockApi cfg"
      and "outcome (api i (agentRequest cfg (instructions ! i))) = ApiError reason" for reason
    unfolding r using that by (simp add: runOneAgent_def failedResult_def Let_def)
  from l ident r failed any show ?thesis by blast
qed

theorem fanOut_isolates_failures_witness:
  "(1::nat) < length [sampleInstruction 1, sampleInstruction 2, sampleInstruction 3]
   \<and> \<not> c_mockApi sampleConfig
   \<and> outcome (flakyApi 1 (agentRequest sampleConfig
        ([sampleInstruction 1, sampleInstruction 2, sampleInstruction 3] ! 1)))
      = ApiError ''Error: 429 rate limited''
   \<and> length (fst (fanOut sampleConfig flakyApi 0
        [sampleInstruction 1, sampleInstruction 2, sampleInstruction 3])) = 3
   \<and> findings (fst (fanOut sampleConfig flakyApi 0
        [sampleInstruction 1, sampleInstruction 2, sampleInstruction 3]) ! 1)
      = ''[AGENT FAILED: Error: 429 rate limited]''
   \<and> r_cost (fst (fanOut sampleConfig flakyApi 0
        [sampleInstruction 1, sampleInstruction 2, sampleInstruction 3]) ! 1)
      = \<lparr>inputTokens = 0, outputTokens = 0, usd = 0\<rparr>
   \<and> r_id (fst (fanOut sampleConfig flakyApi 0
        [sampleInstruction 1, sampleInstruction 2, sampleInstruction 3]) ! 1) = 2"
proof -
  let ?is = "[sampleInstruction 1, sampleInstruction 2, sampleInstruction 3]"
  let ?r = "fst (fanOut sampleConfig flakyApi 0 ?is) ! 1"
  have h: "(1::nat) < length ?is"
    by simp
  have m: "\<not> c_mockApi sampleConfig"
    by (simp add: sampleConfig_def)
  have f: "outcome (flakyApi 1 (agentRequest sampleConfig (?is ! 1)))
      = ApiError ''Error: 429 rate limited''"
    by (simp add: flakyApi_def)
  have i: "i_id (?is ! 1) = 2"
    by (simp add: sampleInstruction_def)
  note t = fanOut_isolates_failures[OF h, of sampleConfig flakyApi 0]
  from t have len: "length (fst (fanOut sampleConfig flakyApi 0 ?is)) = length ?is"
    by (rule conjunct1)
  from t have ident: "r_id ?r = i_id (?is ! 1)"
    by blast
  from t m f have failed: "findings ?r = ''[AGENT FAILED: '' @ ''Error: 429 rate limited'' @ '']''
      \<and> r_cost ?r = \<lparr>inputTokens = 0, outputTokens = 0, usd = 0\<rparr>"
    by blast
  from h m f len ident i failed show ?thesis
    by simp
qed

text \<open>The flag \<^verbatim>\<open>serialFanOut\<close> of the configuration has no effect on \<^verbatim>\<open>fanOut\<close>.\<close>

lemma runOneAgent_serialFanOut_unread:
  "runOneAgent (cfg\<lparr>c_serialFanOut := b\<rparr>) call now instr = runOneAgent cfg call now instr"
  by (simp add: runOneAgent_def agentRequest_def agentResult_def mockFanOutAgent_def Let_def
      cong: apiOutcome.case_cong)

lemma failedResult_serialFanOut_unread:
  "failedResult (cfg\<lparr>c_serialFanOut := b\<rparr>) instr reason = failedResult cfg instr reason"
  by (simp add: failedResult_def)

lemma fanOut_serialFanOut_unread:
  "fanOut (cfg\<lparr>c_serialFanOut := b\<rparr>) api now instructions = fanOut cfg api now instructions"
  by (simp add: fanOut_def collectSettled_def agentPromises_def runOneAgent_serialFanOut_unread
      failedResult_serialFanOut_unread cong: sum.case_cong)

text \<open>Every participant is started at the time \<^verbatim>\<open>fanOut\<close> is called.\<close>

lemma agentPromises_started_together:
  "p \<in> set (agentPromises cfg api now instructions) \<Longrightarrow> p_started p = now"
  by (auto simp: agentPromises_def runOneAgent_def Let_def split: if_splits)

text \<open>
  C1. With \<^verbatim>\<open>serialFanOut\<close> set, two instructions and a language model that answers
  every call after 5 ticks, \<^verbatim>\<open>fanOut\<close> called at time 0 starts both participants at time
  0, both settle at time 5, and \<^verbatim>\<open>fanOut\<close> returns at time 5, where the latencies of the
  two calls add up to 10.
\<close>

theorem fanOut_serial_runs_concurrently:
  "c_serialFanOut sampleConfig
   \<and> map p_started
        (agentPromises sampleConfig slowApi 0 [sampleInstruction 1, sampleInstruction 2])
      = [0, 0]
   \<and> map p_settled
        (agentPromises sampleConfig slowApi 0 [sampleInstruction 1, sampleInstruction 2])
      = [5, 5]
   \<and> snd (fanOut sampleConfig slowApi 0 [sampleInstruction 1, sampleInstruction 2]) = 5
   \<and> latency (slowApi 0 (agentRequest sampleConfig (sampleInstruction 1)))
      + latency (slowApi 1 (agentRequest sampleConfig (sampleInstruction 2))) = 10"
  by (simp add: sampleConfig_def fanOut_def collectSettled_def agentPromises_def runOneAgent_def
      slowApi_def allSettledAt_def Let_def enumerate_eq_zip)

section \<open>Expansion: properties\<close>

lemma expandLoop_skips_other_messages:
  "\<forall>m\<in>set pre. isOtherMessage m \<Longrightarrow> expandLoop parse (pre @ ms) acc = expandLoop parse ms acc"
  by (induction pre) (auto simp: isOtherMessage_def expandMessage_def split: sdkMessage.splits)

lemma mockExpand_ids: "map i_id (fst (mockExpand cfg originalPrompt)) = [1..c_perspectives cfg]"
  by (simp add: mockExpand_def o_def)

text \<open>
  C9, as stated, fails: with a target of 3 perspectives and a payload of two instructions
  with the ids 7 and 9, the expansion returns these two instructions.
\<close>

theorem expand_count_counterexample:
  "c_perspectives sampleConfig = 3
   \<and> map_sum id (map i_id \<circ> fst)
        (expand sampleConfig noParse twoInstructionQuery ''Compare X and Y'' None)
      = Inr [7, 9]"
  by (simp add: sampleConfig_def expand_def expandMessage_def twoInstructionQuery_def
       twoInstructionPayload_def sampleInstruction_def orEmpty_def)

text \<open>
  C9, amended. With mock responses the expansion returns instructions with the ids 1..N
  for the target count N. Otherwise, for a stream that ends with its one result message:
  a result other than success is a fatal error; a payload that does not parse is a fatal
  error; a payload with zero instructions is a fatal error; and a payload with
  instructions is returned as it is, its instructions neither counted against N nor
  renumbered. The expansion makes its one request and has no retry.
\<close>

theorem expand_returns_payload:
  "(c_mockApi cfg \<longrightarrow>
      map_sum id (map i_id \<circ> fst) (expand cfg parse query originalPrompt sessionContext)
      = Inr [1..c_perspectives cfg])
   \<and> (\<not> c_mockApi cfg \<and> (\<forall>m\<in>set pre. isOtherMessage m)
        \<and> query (expandRequest cfg originalPrompt sessionContext)
            = pre @ [ResultMessage subtype so txt u c errs] \<longrightarrow>
        (subtype \<noteq> ''success'' \<longrightarrow>
           expand cfg parse query originalPrompt sessionContext
           = Inl (ExpansionFailed (''Expansion failed: '' @ subtype @ '' - '' @ errs)))
        \<and> (subtype = ''success'' \<and> payloadOf parse so txt = None \<longrightarrow>
           expand cfg parse query originalPrompt sessionContext = Inl PayloadSyntaxError)
        \<and> (\<forall>d. subtype = ''success'' \<and> payloadOf parse so txt = Some d
                \<and> orEmpty (d_instructions d) = [] \<longrightarrow>
           expand cfg parse query originalPrompt sessionContext = Inl ZeroInstructions)
        \<and> (\<forall>d. subtype = ''success'' \<and> payloadOf parse so txt = Some d
                \<and> orEmpty (d_instructions d) \<noteq> [] \<longrightarrow>
           map_sum id fst (expand cfg parse query originalPrompt sessionContext)
           = Inr (orEmpty (d_instructions d))))"
proof -
  have mock: "map_sum id (map i_id \<circ> fst) (expand cfg parse query originalPrompt sessionContext)
      = Inr [1..c_perspectives cfg]"
    if "c_mockApi cfg"
    using that by (simp add: expand_def mockExpand_ids)
  have real: "expand cfg parse query originalPrompt sessionContext
      = (case expandMessage parse (ResultMessage subtype so txt u c errs) ([], zeroCost) of
           Inl e \<Rightarrow> Inl e
         | Inr (instructions, expandCost) \<Rightarrow>
             if length instructions = 0 then Inl ZeroInstructions
             else Inr (instructions, expandCost))"
    if "\<not> c_mockApi cfg" "\<forall>m\<in>set pre. isOtherMessage m"
      "query (expandRequest cfg originalPrompt sessionContext)
       = pre @ [ResultMessage subtype so txt u c errs]"
    using that by (simp add: expand_def expandLoop_skips_other_messages split: sum.split)
  show ?thesis
    using mock real
    by (auto simp: expandMessage_def payloadOf_def split: option.splits)
qed

theorem expand_returns_payload_witness:
  "c_mockApi (sampleConfig\<lparr>c_mockApi := True\<rparr>)
   \<and> map_sum id (map i_id \<circ> fst)
        (expand (sampleConfig\<lparr>c_mockApi := True\<rparr>) noParse (\<lambda>rq. []) ''Compare X and Y'' None)
      = Inr [1, 2, 3]
   \<and> \<not> c_mockApi sampleConfig
   \<and> isOtherMessage (OtherMessage ''system'')
   \<and> payloadOf noParse None ''not json'' = None
   \<and> expand sampleConfig noParse
        (\<lambda>rq. [OtherMessage ''system'',
                ResultMessage ''success'' None ''not json'' None None ''[]''])
        ''Compare X and Y'' None
      = Inl PayloadSyntaxError
   \<and> expand sampleConfig noParse
        (\<lambda>rq. [OtherMessage ''system'',
                ResultMessage ''success'' (Some \<lparr>d_instructions = Some []\<rparr>) [] None None
                  ''[]''])
        ''Compare X and Y'' None
      = Inl ZeroInstructions
   \<and> expand sampleConfig noParse
        (\<lambda>rq. [OtherMessage ''system'',
                ResultMessage ''error_max_turns'' None [] None None ''[]''])
        ''Compare X and Y'' None
      = Inl (ExpansionFailed ''Expansion failed: error_max_turns - []'')
   \<and> map_sum id fst
        (expand sampleConfig noParse
           (\<lambda>rq. [OtherMessage ''system'',
                   ResultMessage ''success''
                     (Some \<lparr>d_instructions = Some [sampleInstruction 7, sampleInstruction 9]\<rparr>)
                     [] (Some \<lparr>input_tokens = 150, output_tokens = 300\<rparr>) (Some (1 / 50))
                     ''[]''])
           ''Compare X and Y'' None)
      = Inr [sampleInstruction 7, sampleInstruction 9]"
proof -
  have m: "c_mockApi (sampleConfig\<lparr>c_mockApi := True\<rparr>)"
    by simp
  have n: "\<not> c_mockApi sampleConfig"
    by (simp add: sampleConfig_def)
  have o: "\<forall>m\<in>set [OtherMessage ''system'']. isOtherMessage m"
    by (simp add: isOtherMessage_def)
  have upto: "[1..3] = [1, 2, 3::int]"
    by code_simp
  have a: "map_sum id (map i_id \<circ> fst)
        (expand (sampleConfig\<lparr>c_mockApi := True\<rparr>) noParse (\<lambda>rq. []) ''Compare X and Y'' None)
      = Inr [1, 2, 3]"
    using m expand_returns_payload[of "sampleConfig\<lparr>c_mockApi := True\<rparr>" noParse "\<lambda>rq. []"
        "''Compare X and Y''" None]
    by (simp add: sampleConfig_def upto)
  have b: "expand sampleConfig noParse
        (\<lambda>rq. [OtherMessage ''system'',
                ResultMessage ''success'' None ''not json'' None None ''[]''])
        ''Compare X and Y'' None
      = Inl PayloadSyntaxError"
    using n o expand_returns_payload[of sampleConfig noParse
        "\<lambda>rq. [OtherMessage ''system'',
                ResultMessage ''success'' None ''not json'' None None ''[]'']"
        "''Compare X and Y''" None
        "[OtherMessage ''system'']" "''success''" None "''not json''" None None "''[]''"]
    by (simp add: payloadOf_def noParse_def)
  have c: "expand sampleConfig noParse
        (\<lambda>rq. [OtherMessage ''system'',
                ResultMessage ''success'' (Some \<lparr>d_instructions = Some []\<rparr>) [] None None
                  ''[]''])
        ''Compare X and Y'' None
      = Inl ZeroInstructions"
    using n o expand_returns_payload[of sampleConfig noParse
        "\<lambda>rq. [OtherMessage ''system'',
                ResultMessage ''success'' (Some \<lparr>d_instructions = Some []\<rparr>) [] None None
                  ''[]'']"
        "''Compare X and Y''" None
        "[OtherMessage ''system'']" "''success''" "Some \<lparr>d_instructions = Some []\<rparr>" "[]"
        None None "''[]''"]
    by (simp add: payloadOf_def orEmpty_def)
  have d: "expand sampleConfig noParse
        (\<lambda>rq. [OtherMessage ''system'',
                ResultMessage ''error_max_turns'' None [] None None ''[]''])
        ''Compare X and Y'' None
      = Inl (ExpansionFailed ''Expansion failed: error_max_turns - []'')"
    using n o expand_returns_payload[of sampleConfig noParse
        "\<lambda>rq. [OtherMessage ''system'',
                ResultMessage ''error_max_turns'' None [] None None ''[]'']"
        "''Compare X and Y''" None
        "[OtherMessage ''system'']" "''error_max_turns''" None "[]" None None "''[]''"]
    by simp
  have e: "map_sum id fst
        (expand sampleConfig noParse
           (\<lambda>rq. [OtherMessage ''system'',
                   ResultMessage ''success''
                     (Some \<lparr>d_instructions = Some [sampleInstruction 7, sampleInstruction 9]\<rparr>)
                     [] (Some \<lparr>input_tokens = 150, output_tokens = 300\<rparr>) (Some (1 / 50))
                     ''[]''])
           ''Compare X and Y'' None)
      = Inr [sampleInstruction 7, sampleInstruction 9]"
    using n o expand_returns_payload[of sampleConfig noParse
        "\<lambda>rq. [OtherMessage ''system'',
                   ResultMessage ''success''
                     (Some \<lparr>d_instructions = Some [sampleInstruction 7, sampleInstruction 9]\<rparr>)
                     [] (Some \<lparr>input_tokens = 150, output_tokens = 300\<rparr>) (Some (1 / 50))
                     ''[]'']"
        "''Compare X and Y''" None
        "[OtherMessage ''system'']" "''success''"
        "Some \<lparr>d_instructions = Some [sampleInstruction 7, sampleInstruction 9]\<rparr>" "[]"
        "Some \<lparr>input_tokens = 150, output_tokens = 300\<rparr>" "Some (1 / 50)" "''[]''"]
    by (simp add: payloadOf_def orEmpty_def)
  have p: "payloadOf noParse None ''not json'' = None"
    by (simp add: payloadOf_def noParse_def)
  have o': "isOtherMessage (OtherMessage ''system'')"
    by (simp add: isOtherMessage_def)
  from m a n o' p b c d e show ?thesis
    by (intro conjI)
qed

section \<open>Single call with tools: properties\<close>












end
